theory Spec2Isabelle
  imports Complex_Main
begin

section \<open>Layered constructions of honeybee-energy: data model\<close>

text \<open>
  The embedding follows \<^verbatim>\<open>honeybee_energy/construction.py\<close>. Python floats are
  modelled as real numbers, so every statement below is one of exact arithmetic.
  Exceptions are values: a function that can raise returns \<open>error + 'a\<close>.
\<close>

datatype error = AssertionError | IndexError | AttributeError | ZeroDivisionError | TypeError

fun and_then :: "error + 'a \<Rightarrow> ('a \<Rightarrow> error + 'b) \<Rightarrow> error + 'b" where
  "and_then (Inl e) f = Inl e"
| "and_then (Inr x) f = f x"

text \<open>Python's true division of floats: a zero divisor raises.\<close>

definition fdiv :: "real \<Rightarrow> real \<Rightarrow> error + real" where
  "fdiv a b = (if b = 0 then Inl ZeroDivisionError else Inr (a / b))"

text \<open>Python indexing of a sequence: negative indices count from the end.\<close>

definition getitem :: "'a list \<Rightarrow> int \<Rightarrow> error + 'a" where
  "getitem xs i =
     (if 0 \<le> i \<and> i < int (length xs) then Inr (xs ! nat i)
      else if i < 0 \<and> - int (length xs) \<le> i then Inr (xs ! nat (int (length xs) + i))
      else Inl IndexError)"

text \<open>
  The material classes live outside \<^verbatim>\<open>construction.py\<close>; the module only reads
  the attributes and calls the methods listed here, so a material is a tagged value
  carrying exactly those. The methods of gas and shade layers are parameters of the
  model. A shade method is called either with its geometry (height, angle, pressure)
  or without it (the callee then uses its own defaults): the geometry is optional.
  \<open>Shade\<close> stands for every subclass of the shade base class; a blind has a back
  emissivity, a plain shade has none.
\<close>

type_synonym geometry = "real \<times> real \<times> real"

datatype material =
    OpaqueMaterial (o_r_value: real) (thermal_absorptance: real)
  | Glazing (g_r_value: real) (g_emissivity: real) (g_emissivity_back: real)
  | SimpleGlazSys (s_r_value: real)
  | Gas (u_value: "real \<Rightarrow> real \<Rightarrow> real \<Rightarrow> real \<Rightarrow> real")
        (u_value_at_angle:
           "real \<Rightarrow> real \<Rightarrow> real \<Rightarrow> real \<Rightarrow> real \<Rightarrow> real \<Rightarrow> real \<Rightarrow> real")
  | Shade (sh_emissivity: real) (sh_emissivity_back: "real option")
          (r_value_exterior: "real \<Rightarrow> real \<Rightarrow> geometry option \<Rightarrow> real \<Rightarrow> real")
          (r_value_interior: "real \<Rightarrow> real \<Rightarrow> geometry option \<Rightarrow> real \<Rightarrow> real")
          (r_value_between: "real \<Rightarrow> real \<Rightarrow> real \<Rightarrow> geometry option \<Rightarrow> real \<Rightarrow> real")

text \<open>
  The \<^verbatim>\<open>isinstance\<close> tests of the module. A simple glazing system is a glazing
  (both classes come from the glazing module and share its base class); where it matters,
  the source tests for the simple glazing system first.
\<close>

fun is_opaque_base :: "material \<Rightarrow> bool" where
  "is_opaque_base (OpaqueMaterial _ _) = True"
| "is_opaque_base _ = False"

fun is_window_base :: "material \<Rightarrow> bool" where
  "is_window_base (OpaqueMaterial _ _) = False"
| "is_window_base _ = True"

fun is_simple_glaz_sys :: "material \<Rightarrow> bool" where
  "is_simple_glaz_sys (SimpleGlazSys _) = True"
| "is_simple_glaz_sys _ = False"

fun is_gas_base :: "material \<Rightarrow> bool" where
  "is_gas_base (Gas _ _) = True"
| "is_gas_base _ = False"

fun is_glazing_base :: "material \<Rightarrow> bool" where
  "is_glazing_base (Glazing _ _ _) = True"
| "is_glazing_base (SimpleGlazSys _) = True"
| "is_glazing_base _ = False"

fun is_shade_base :: "material \<Rightarrow> bool" where
  "is_shade_base (Shade _ _ _ _ _) = True"
| "is_shade_base _ = False"

text \<open>Attribute reads; an attribute the variant does not have raises.\<close>

fun r_value :: "material \<Rightarrow> error + real" where
  "r_value (OpaqueMaterial r _) = Inr r"
| "r_value (Glazing r _ _) = Inr r"
| "r_value (SimpleGlazSys r) = Inr r"
| "r_value _ = Inl AttributeError"

fun emissivity :: "material \<Rightarrow> error + real" where
  "emissivity (Glazing _ e _) = Inr e"
| "emissivity (Shade e _ _ _ _) = Inr e"
| "emissivity _ = Inl AttributeError"

fun emissivity_back :: "material \<Rightarrow> error + real" where
  "emissivity_back (Glazing _ _ e) = Inr e"
| "emissivity_back (Shade _ (Some e) _ _ _) = Inr e"
| "emissivity_back _ = Inl AttributeError"

fun thermal_absorptance_of :: "material \<Rightarrow> error + real" where
  "thermal_absorptance_of (OpaqueMaterial _ a) = Inr a"
| "thermal_absorptance_of _ = Inl AttributeError"

text \<open>Method calls; a material without the method raises.\<close>

fun call_u_value :: "material \<Rightarrow> real \<Rightarrow> real \<Rightarrow> real \<Rightarrow> real \<Rightarrow> error + real" where
  "call_u_value (Gas u _) delta_t e_back e_front t_kelvin = Inr (u delta_t e_back e_front t_kelvin)"
| "call_u_value _ delta_t e_back e_front t_kelvin = Inl AttributeError"

fun call_u_value_at_angle ::
    "material \<Rightarrow> real \<Rightarrow> real \<Rightarrow> real \<Rightarrow> real \<Rightarrow> real \<Rightarrow> real \<Rightarrow> real \<Rightarrow> error + real" where
  "call_u_value_at_angle (Gas _ ua) delta_t e_back e_front height angle t_kelvin pressure =
     Inr (ua delta_t e_back e_front height angle t_kelvin pressure)"
| "call_u_value_at_angle _ delta_t e_back e_front height angle t_kelvin pressure =
     Inl AttributeError"

fun call_r_value_exterior ::
    "material \<Rightarrow> real \<Rightarrow> real \<Rightarrow> geometry option \<Rightarrow> real \<Rightarrow> error + real" where
  "call_r_value_exterior (Shade _ _ f _ _) delta_t e geom t_kelvin = Inr (f delta_t e geom t_kelvin)"
| "call_r_value_exterior _ delta_t e geom t_kelvin = Inl AttributeError"

fun call_r_value_interior ::
    "material \<Rightarrow> real \<Rightarrow> real \<Rightarrow> geometry option \<Rightarrow> real \<Rightarrow> error + real" where
  "call_r_value_interior (Shade _ _ _ f _) delta_t e geom t_kelvin = Inr (f delta_t e geom t_kelvin)"
| "call_r_value_interior _ delta_t e geom t_kelvin = Inl AttributeError"

fun call_r_value_between ::
    "material \<Rightarrow> real \<Rightarrow> real \<Rightarrow> real \<Rightarrow> geometry option \<Rightarrow> real \<Rightarrow> error + real" where
  "call_r_value_between (Shade _ _ _ _ f) delta_t e_back e_front geom t_kelvin =
     Inr (f delta_t e_back e_front geom t_kelvin)"
| "call_r_value_between _ delta_t e_back e_front geom t_kelvin = Inl AttributeError"

text \<open>
  The generic air of the base class (\<^verbatim>\<open>_air\<close>) is a gas material of another module;
  its four property functions are a parameter of the model.
\<close>

record air =
  density_at_temperature :: "real \<Rightarrow> real \<Rightarrow> real"
  specific_heat_at_temperature :: "real \<Rightarrow> real"
  viscosity_at_temperature :: "real \<Rightarrow> real"
  conductivity_at_temperature :: "real \<Rightarrow> real"

section \<open>Film coefficients shared by both kinds of construction\<close>

text \<open>
  The emissivities are properties of the subclass and may raise; the film functions
  take the outcome of reading the property and bind it where the source reads it.
\<close>

definition out_h_simple :: real where
  "out_h_simple = 23"

definition in_h_simple :: "error + real \<Rightarrow> error + real" where
  "in_h_simple inside_emissivity =
     and_then inside_emissivity (\<lambda>e. Inr (3.6 + (4.4 * e / 0.84)))"

definition out_h :: "error + real \<Rightarrow> real \<Rightarrow> real \<Rightarrow> error + real" where
  "out_h outside_emissivity wind_speed t_kelvin =
     (let conv_h = 4 + (4 * wind_speed)
      in and_then outside_emissivity (\<lambda>e.
         let rad_h = 4 * (5.6697 / 10 ^ 8) * e * (t_kelvin ^ 3)
         in Inr (conv_h + rad_h)))"

definition radians :: "real \<Rightarrow> real" where
  "radians x = x * pi / 180"

text \<open>
  The Nusselt number of \<^verbatim>\<open>in_h\<close>, by angle. Every base of a fractional power
  is non-negative here (the Rayleigh number is an absolute value, and the sine is
  positive between 15 and 179 degrees), where Python's \<^verbatim>\<open>**\<close> is \<open>powr\<close>.
\<close>

definition nusselt_inclined :: "real \<Rightarrow> real \<Rightarrow> real" where
  "nusselt_inclined rayleigh_h sin_a = 0.56 * ((rayleigh_h * sin_a) powr (1 / 4))"

definition nusselt_number :: "real \<Rightarrow> real \<Rightarrow> error + real" where
  "nusselt_number angle rayleigh_h =
     (if angle < 15 then Inr (0.13 * (rayleigh_h powr (1 / 3)))
      else if angle \<le> 90 then
        (let sin_a = sin (radians angle)
         in and_then (fdiv (exp (0.72 * angle)) sin_a) (\<lambda>q.
            let rayleigh_c = 250000 * (q powr (1 / 5))
            in if rayleigh_h < rayleigh_c then Inr (nusselt_inclined rayleigh_h sin_a)
               else (let nu_1 = 0.56 * ((rayleigh_c * sin_a) powr (1 / 4));
                         nu_2 = 0.13 * ((rayleigh_h powr (1 / 3)) - (rayleigh_c powr (1 / 3)))
                     in Inr (nu_1 + nu_2))))
      else if angle \<le> 179 then
        (let sin_a = sin (radians angle)
         in Inr (nusselt_inclined rayleigh_h sin_a))
      else Inr (0.58 * (rayleigh_h powr (1 / 5))))"

definition in_h ::
    "air \<Rightarrow> error + real \<Rightarrow> real \<Rightarrow> real \<Rightarrow> real \<Rightarrow> real \<Rightarrow> real \<Rightarrow> error + real" where
  "in_h air inside_emissivity t_kelvin delta_t height angle pressure =
     (let ray_numerator = ((density_at_temperature air t_kelvin pressure) ^ 2) *
            (height ^ 3) * 9.81 * specific_heat_at_temperature air t_kelvin * delta_t;
          ray_denominator = t_kelvin * viscosity_at_temperature air t_kelvin *
            conductivity_at_temperature air t_kelvin
      in and_then (fdiv ray_numerator ray_denominator) (\<lambda>q.
         let rayleigh_h = \<bar>q\<bar>
         in and_then (nusselt_number angle rayleigh_h) (\<lambda>nusselt.
            and_then (fdiv (conductivity_at_temperature air t_kelvin) height) (\<lambda>k_h.
            let conv_h = nusselt * k_h
            in and_then inside_emissivity (\<lambda>e.
               let rad_h = 4 * (5.6697 / 10 ^ 8) * e * (t_kelvin ^ 3)
               in Inr (conv_h + rad_h))))))"

section \<open>Temperature profile from a list of resistances\<close>

text \<open>
  The loop of \<^verbatim>\<open>_temperature_profile_from_r_values\<close>: \<open>i\<close> is the index that
  \<^verbatim>\<open>enumerate\<close> produces, the last argument the list being appended to.
\<close>

fun profile_loop :: "real \<Rightarrow> real \<Rightarrow> nat \<Rightarrow> real list \<Rightarrow> real list \<Rightarrow> error + real list" where
  "profile_loop delta_t r_factor i [] temperatures = Inr temperatures"
| "profile_loop delta_t r_factor i (r_val # rest) temperatures =
     and_then (getitem temperatures (int i)) (\<lambda>t.
     and_then (fdiv r_val r_factor) (\<lambda>q.
       profile_loop delta_t r_factor (Suc i) rest (temperatures @ [t + (delta_t * q)])))"

definition temperature_profile_from_r_values ::
    "real list \<Rightarrow> real \<Rightarrow> real \<Rightarrow> error + real list" where
  "temperature_profile_from_r_values r_values outside_temperature inside_temperature =
     (let r_factor = sum_list r_values;
          delta_t = inside_temperature - outside_temperature
      in profile_loop delta_t r_factor 0 r_values [outside_temperature])"

section \<open>Opaque constructions\<close>

text \<open>The materials setter of \<^verbatim>\<open>OpaqueConstruction\<close>; it returns the stored tuple.\<close>

definition opaque_materials_setter :: "material list \<Rightarrow> error + material list" where
  "opaque_materials_setter mats =
     (if \<not> list_all is_opaque_base mats then Inl AssertionError
      else if \<not> length mats > 0 then Inl AssertionError
      else if \<not> length mats \<le> 10 then Inl AssertionError
      else Inr mats)"

fun sum_r_values :: "material list \<Rightarrow> error + real" where
  "sum_r_values [] = Inr 0"
| "sum_r_values (mat # mats) =
     and_then (r_value mat) (\<lambda>r. and_then (sum_r_values mats) (\<lambda>s. Inr (r + s)))"

definition opaque_r_value :: "material list \<Rightarrow> error + real" where
  "opaque_r_value materials = sum_r_values materials"

definition opaque_inside_emissivity :: "material list \<Rightarrow> error + real" where
  "opaque_inside_emissivity materials =
     and_then (getitem materials (- 1)) thermal_absorptance_of"

definition opaque_outside_emissivity :: "material list \<Rightarrow> error + real" where
  "opaque_outside_emissivity materials =
     and_then (getitem materials 0) thermal_absorptance_of"

definition opaque_r_factor :: "material list \<Rightarrow> error + real" where
  "opaque_r_factor materials =
     and_then (fdiv 1 out_h_simple) (\<lambda>ext_r.
     and_then (in_h_simple (opaque_inside_emissivity materials)) (\<lambda>h.
     and_then (fdiv 1 h) (\<lambda>int_r.
     and_then (opaque_r_value materials) (\<lambda>r. Inr (r + ext_r + int_r)))))"

text \<open>
  The angle rule at the head of both \<^verbatim>\<open>temperature_profile\<close> methods, and the rest
  of the opaque method, which runs with the angle the rule yields.
\<close>

definition heat_flow_angle :: "real \<Rightarrow> real \<Rightarrow> real \<Rightarrow> real" where
  "heat_flow_angle angle outside_temperature inside_temperature =
     (if angle \<noteq> 90 \<and> outside_temperature > inside_temperature then \<bar>180 - angle\<bar>
      else angle)"

fun all_r_values :: "material list \<Rightarrow> error + real list" where
  "all_r_values [] = Inr []"
| "all_r_values (mat # mats) =
     and_then (r_value mat) (\<lambda>r. and_then (all_r_values mats) (\<lambda>rs. Inr (r # rs)))"

definition opaque_profile_at ::
    "air \<Rightarrow> material list \<Rightarrow> real \<Rightarrow> real \<Rightarrow> real \<Rightarrow> real \<Rightarrow> real \<Rightarrow> real
      \<Rightarrow> error + (real list \<times> real list)" where
  "opaque_profile_at air materials outside_temperature inside_temperature
       outside_wind_speed height angle pressure =
     and_then (in_h_simple (opaque_inside_emissivity materials)) (\<lambda>h_simple.
     and_then (fdiv 1 h_simple) (\<lambda>in_r_init.
     and_then (out_h (opaque_outside_emissivity materials) outside_wind_speed
                 (outside_temperature + 273.15)) (\<lambda>h_out.
     and_then (fdiv 1 h_out) (\<lambda>out_r.
     and_then (all_r_values materials) (\<lambda>mat_rs.
     let r_values = [out_r] @ mat_rs @ [in_r_init]
     in and_then (fdiv in_r_init (sum_list r_values)) (\<lambda>q.
        let in_delta_t = q * (outside_temperature - inside_temperature)
        in and_then (in_h air (opaque_inside_emissivity materials)
                       (inside_temperature - (in_delta_t / 2) + 273.15)
                       in_delta_t height angle pressure) (\<lambda>h_in.
           and_then (fdiv 1 h_in) (\<lambda>in_r.
           let r_values = butlast r_values @ [in_r]
           in and_then (temperature_profile_from_r_values r_values
                          outside_temperature inside_temperature) (\<lambda>temperatures.
              Inr (temperatures, r_values))))))))))"

definition opaque_temperature_profile ::
    "air \<Rightarrow> material list \<Rightarrow> real \<Rightarrow> real \<Rightarrow> real \<Rightarrow> real \<Rightarrow> real \<Rightarrow> real
      \<Rightarrow> error + (real list \<times> real list)" where
  "opaque_temperature_profile air materials outside_temperature inside_temperature
       outside_wind_speed height angle pressure =
     (let angle = heat_flow_angle angle outside_temperature inside_temperature
      in opaque_profile_at air materials outside_temperature inside_temperature
           outside_wind_speed height angle pressure)"

section \<open>Window constructions\<close>

text \<open>
  The loop of the materials setter of \<^verbatim>\<open>WindowConstruction\<close>: \<open>n\<close> is
  \<^verbatim>\<open>len(mats)\<close>, \<open>i\<close> the index; the result is the flag \<^verbatim>\<open>has_shade\<close>.
\<close>

fun window_layers_loop ::
    "nat \<Rightarrow> nat \<Rightarrow> bool \<Rightarrow> bool \<Rightarrow> material list \<Rightarrow> error + bool" where
  "window_layers_loop n i glazing_layer has_shade [] = Inr has_shade"
| "window_layers_loop n i glazing_layer has_shade (mat # rest) =
     (if \<not> is_window_base mat then Inl AssertionError
      else if is_simple_glaz_sys mat then
        (if n \<noteq> 1 then Inl AssertionError
         else window_layers_loop n (Suc i) glazing_layer has_shade rest)
      else if is_gas_base mat then
        (if \<not> glazing_layer then Inl AssertionError
         else window_layers_loop n (Suc i) False has_shade rest)
      else if is_glazing_base mat then
        (if glazing_layer then Inl AssertionError
         else window_layers_loop n (Suc i) True has_shade rest)
      else
        (if i \<noteq> 0 \<and> \<not> glazing_layer then Inl AssertionError
         else if has_shade then Inl AssertionError
         else window_layers_loop n (Suc i) False True rest))"

record window_construction =
  materials :: "material list"
  has_shade :: bool

definition window_materials_setter :: "material list \<Rightarrow> error + window_construction" where
  "window_materials_setter mats =
     (if \<not> length mats > 0 then Inl AssertionError
      else if \<not> length mats \<le> 8 then Inl AssertionError
      else and_then (getitem mats 0) (\<lambda>first.
        if is_gas_base first then Inl AssertionError
        else and_then (getitem mats (- 1)) (\<lambda>final.
          if is_gas_base final then Inl AssertionError
          else and_then (window_layers_loop (length mats) 0 False False mats) (\<lambda>shade.
            Inr \<lparr>materials = mats, has_shade = shade\<rparr>))))"

text \<open>
  The constructor of the base class sets the name, then the materials. The name check
  belongs to another package and is a parameter.
\<close>

definition window_construction_init ::
    "(string \<Rightarrow> error + string) \<Rightarrow> string \<Rightarrow> material list \<Rightarrow> error + (string \<times> window_construction)" where
  "window_construction_init valid_ep_string name mats =
     and_then (valid_ep_string name) (\<lambda>nm.
     and_then (window_materials_setter mats) (\<lambda>c. Inr (nm, c)))"

definition opaque_construction_init ::
    "(string \<Rightarrow> error + string) \<Rightarrow> string \<Rightarrow> material list \<Rightarrow> error + (string \<times> material list)" where
  "opaque_construction_init valid_ep_string name mats =
     and_then (valid_ep_string name) (\<lambda>nm.
     and_then (opaque_materials_setter mats) (\<lambda>ms. Inr (nm, ms)))"

fun gap_count_loop :: "nat \<Rightarrow> nat \<Rightarrow> nat \<Rightarrow> material list \<Rightarrow> nat" where
  "gap_count_loop n i count [] = count"
| "gap_count_loop n i count (mat # rest) =
     (if is_gas_base mat then gap_count_loop n (Suc i) (count + 1) rest
      else if is_shade_base mat then
        (if i = 0 \<or> int count = int n - 1 then gap_count_loop n (Suc i) (count + 1) rest
         else gap_count_loop n (Suc i) (count + 2) rest)
      else gap_count_loop n (Suc i) count rest)"

definition gap_count :: "material list \<Rightarrow> nat" where
  "gap_count mats = gap_count_loop (length mats) 0 0 mats"

text \<open>An attribute read with the fallback of \<^verbatim>\<open>try ... except AttributeError\<close>.\<close>

definition emissivity_back_or_emissivity :: "material list \<Rightarrow> int \<Rightarrow> error + real" where
  "emissivity_back_or_emissivity mats k =
     (case and_then (getitem mats k) emissivity_back of
        Inl AttributeError \<Rightarrow> and_then (getitem mats k) emissivity
      | other \<Rightarrow> other)"

definition window_inside_emissivity :: "material list \<Rightarrow> error + real" where
  "window_inside_emissivity mats =
     and_then (getitem mats 0) (\<lambda>first.
       if is_simple_glaz_sys first then Inr 0.84
       else emissivity_back_or_emissivity mats (- 1))"

definition window_outside_emissivity :: "material list \<Rightarrow> error + real" where
  "window_outside_emissivity mats =
     and_then (getitem mats 0) (\<lambda>first.
       if is_simple_glaz_sys first then Inr 0.84
       else emissivity first)"

text \<open>The entries of the emissivity list: \<^verbatim>\<open>None\<close>, one number, or a pair.\<close>

datatype emiss = ENone | ESingle real | EPair real real

fun emiss_single :: "emiss \<Rightarrow> error + real" where
  "emiss_single (ESingle e) = Inr e"
| "emiss_single _ = Inl TypeError"

fun emiss_0 :: "emiss \<Rightarrow> error + real" where
  "emiss_0 (EPair a _) = Inr a"
| "emiss_0 _ = Inl TypeError"

fun emiss_1 :: "emiss \<Rightarrow> error + real" where
  "emiss_1 (EPair _ b) = Inr b"
| "emiss_1 _ = Inl TypeError"

text \<open>
  One pass of the loop of \<^verbatim>\<open>_layered_r_value_initial\<close> for the layer \<open>mat\<close> at
  index \<open>i\<close>: the resistance and the emissivity entry it appends.
\<close>

definition initial_layer ::
    "material list \<Rightarrow> real \<Rightarrow> real \<Rightarrow> nat \<Rightarrow> material \<Rightarrow> error + (real \<times> emiss)" where
  "initial_layer mats delta_t avg_t_guess i mat =
     (if is_glazing_base mat then
        and_then (r_value mat) (\<lambda>r. Inr (r, ENone))
      else if is_gas_base mat then
        and_then (and_then (getitem mats (int i + 1)) emissivity) (\<lambda>e_front.
        and_then (emissivity_back_or_emissivity mats (int i - 1)) (\<lambda>e_back.
        and_then (call_u_value mat delta_t e_back e_front avg_t_guess) (\<lambda>u.
        and_then (fdiv 1 u) (\<lambda>r. Inr (r, EPair e_back e_front)))))
      else if i = 0 then
        and_then (and_then (getitem mats (int i + 1)) emissivity) (\<lambda>e_back.
        and_then (call_r_value_exterior mat delta_t e_back None avg_t_guess) (\<lambda>r.
          Inr (r, ESingle e_back)))
      else if int i = int (length mats) - 1 then
        and_then (and_then (getitem mats (int i - 1)) emissivity_back) (\<lambda>e_front.
        and_then (call_r_value_interior mat delta_t e_front None avg_t_guess) (\<lambda>r.
          Inr (r, ESingle e_front)))
      else
        and_then (and_then (getitem mats (int i + 1)) emissivity) (\<lambda>e_back.
        and_then (and_then (getitem mats (int i - 1)) emissivity_back) (\<lambda>e_front.
        and_then (call_r_value_between mat delta_t e_back e_front None avg_t_guess) (\<lambda>r.
          Inr (r, EPair e_back e_front)))))"

fun initial_loop ::
    "material list \<Rightarrow> real \<Rightarrow> real \<Rightarrow> nat \<Rightarrow> material list \<Rightarrow> real list \<Rightarrow> emiss list
      \<Rightarrow> error + (real list \<times> emiss list)" where
  "initial_loop mats delta_t avg_t_guess i [] r_vals emiss = Inr (r_vals, emiss)"
| "initial_loop mats delta_t avg_t_guess i (mat # rest) r_vals emiss =
     and_then (initial_layer mats delta_t avg_t_guess i mat) (\<lambda>(r, e).
       initial_loop mats delta_t avg_t_guess (Suc i) rest (r_vals @ [r]) (emiss @ [e]))"

definition layered_r_value_initial ::
    "material list \<Rightarrow> nat \<Rightarrow> real \<Rightarrow> real \<Rightarrow> real \<Rightarrow> error + (real list \<times> emiss list)" where
  "layered_r_value_initial mats gap_cnt delta_t_guess avg_t_guess wind_speed =
     and_then (out_h (window_outside_emissivity mats) wind_speed
                 (avg_t_guess - delta_t_guess)) (\<lambda>h_out.
     and_then (fdiv 1 h_out) (\<lambda>out_r.
     and_then (fdiv delta_t_guess (real gap_cnt)) (\<lambda>delta_t.
     and_then (initial_loop mats delta_t avg_t_guess 0 mats [out_r] []) (\<lambda>(r_vals, emiss).
     and_then (in_h_simple (window_inside_emissivity mats)) (\<lambda>h_in.
     and_then (fdiv 1 h_in) (\<lambda>in_r. Inr (r_vals @ [in_r], emiss)))))))"

text \<open>
  One pass of the loop of \<^verbatim>\<open>_layered_r_value\<close>: the resistance appended for the
  layer \<open>mat\<close> at index \<open>i\<close>. The entry of the emissivity list must have the shape
  the layer's method expects (a pair where the source subscripts it, a number else).
\<close>

definition gap_conditions :: "real list \<Rightarrow> nat \<Rightarrow> error + (real \<times> real)" where
  "gap_conditions temperatures i =
     and_then (getitem temperatures (int i + 1)) (\<lambda>t1.
     and_then (getitem temperatures (int i + 2)) (\<lambda>t2.
       Inr (\<bar>t1 - t2\<bar>, ((t1 + t2) / 2) + 273.15)))"

definition refined_layer ::
    "material list \<Rightarrow> real list \<Rightarrow> real list \<Rightarrow> emiss list \<Rightarrow> real \<Rightarrow> real \<Rightarrow> real
      \<Rightarrow> nat \<Rightarrow> material \<Rightarrow> error + real" where
  "refined_layer mats temperatures r_values_init emiss height angle pressure i mat =
     (if is_glazing_base mat then getitem r_values_init (int i + 1)
      else if is_gas_base mat then
        and_then (gap_conditions temperatures i) (\<lambda>(delta_t, avg_temp).
        and_then (and_then (getitem emiss (int i)) emiss_0) (\<lambda>e0.
        and_then (and_then (getitem emiss (int i)) emiss_1) (\<lambda>e1.
        and_then (call_u_value_at_angle mat delta_t e0 e1 height angle avg_temp pressure) (\<lambda>u.
          fdiv 1 u))))
      else
        and_then (gap_conditions temperatures i) (\<lambda>(delta_t, avg_temp).
          if i = 0 then
            and_then (and_then (getitem emiss (int i)) emiss_single) (\<lambda>e.
              call_r_value_exterior mat delta_t e (Some (height, angle, pressure)) avg_temp)
          else if int i = int (length mats) - 1 then
            and_then (and_then (getitem emiss (int i)) emiss_single) (\<lambda>e.
              call_r_value_interior mat delta_t e (Some (height, angle, pressure)) avg_temp)
          else
            and_then (and_then (getitem emiss (int i)) emiss_0) (\<lambda>e0.
            and_then (and_then (getitem emiss (int i)) emiss_1) (\<lambda>e1.
              call_r_value_between mat delta_t e0 e1 (Some (height, angle, pressure))
                avg_temp))))"

fun refined_loop ::
    "material list \<Rightarrow> real list \<Rightarrow> real list \<Rightarrow> emiss list \<Rightarrow> real \<Rightarrow> real \<Rightarrow> real
      \<Rightarrow> nat \<Rightarrow> material list \<Rightarrow> real list \<Rightarrow> error + real list" where
  "refined_loop mats temperatures r_values_init emiss height angle pressure i [] r_vals =
     Inr r_vals"
| "refined_loop mats temperatures r_values_init emiss height angle pressure i (mat # rest) r_vals =
     and_then (refined_layer mats temperatures r_values_init emiss height angle pressure i mat)
       (\<lambda>r. refined_loop mats temperatures r_values_init emiss height angle pressure
               (Suc i) rest (r_vals @ [r]))"

definition layered_r_value ::
    "air \<Rightarrow> material list \<Rightarrow> real list \<Rightarrow> real list \<Rightarrow> emiss list \<Rightarrow> real \<Rightarrow> real \<Rightarrow> real
      \<Rightarrow> error + real list" where
  "layered_r_value air mats temperatures r_values_init emiss height angle pressure =
     and_then (getitem r_values_init 0) (\<lambda>out_r.
     and_then (refined_loop mats temperatures r_values_init emiss height angle pressure
                 0 mats [out_r]) (\<lambda>r_vals.
     and_then (getitem temperatures (- 1)) (\<lambda>t1.
     and_then (getitem temperatures (- 2)) (\<lambda>t2.
     let delta_t = \<bar>t1 - t2\<bar>;
         avg_temp = ((t1 + t2) / 2) + 273.15
     in and_then (in_h air (window_inside_emissivity mats) avg_temp delta_t
                    height angle pressure) (\<lambda>h_in.
        and_then (fdiv 1 h_in) (\<lambda>in_r. Inr (r_vals @ [in_r])))))))"

text \<open>
  The body shared by the two \<^verbatim>\<open>while\<close> loops (\<^verbatim>\<open>_solve_r_values\<close> with the default
  conditions, \<^verbatim>\<open>temperature_profile\<close> with the caller's): a temperature profile from
  the current resistances, then the refined resistances.
\<close>

definition refine_r_values ::
    "air \<Rightarrow> material list \<Rightarrow> emiss list \<Rightarrow> real \<Rightarrow> real \<Rightarrow> real \<Rightarrow> real \<Rightarrow> real
      \<Rightarrow> real list \<Rightarrow> error + real list" where
  "refine_r_values air mats emiss outside_temperature inside_temperature
       height angle pressure r_vals =
     and_then (temperature_profile_from_r_values r_vals
                 outside_temperature inside_temperature) (\<lambda>temperatures.
       layered_r_value air mats temperatures r_vals emiss height angle pressure)"

text \<open>
  The \<^verbatim>\<open>while\<close> loop itself, with its three variables. It has no iteration bound;
  \<open>None\<close> is the run that never leaves the loop.
\<close>

partial_function (option) r_values_loop ::
    "(real list \<Rightarrow> error + real list) \<Rightarrow> real \<Rightarrow> real \<Rightarrow> real list
      \<Rightarrow> (error + real list) option" where
  "r_values_loop body r_last r_next r_vals =
     (if \<bar>r_next - r_last\<bar> > 0.001 then
        (case body r_vals of
           Inl e \<Rightarrow> Some (Inl e)
         | Inr r_vals' \<Rightarrow> r_values_loop body (sum_list r_vals) (sum_list r_vals') r_vals')
      else Some (Inr r_vals))"

definition solve_r_values ::
    "air \<Rightarrow> material list \<Rightarrow> real list \<Rightarrow> emiss list \<Rightarrow> (error + real list) option" where
  "solve_r_values air mats r_vals emissivities =
     r_values_loop (refine_r_values air mats emissivities (- 18) 21 1.0 90.0 101325)
       0 (sum_list r_vals) r_vals"

text \<open>
  The seed of \<^verbatim>\<open>r_factor\<close> and \<^verbatim>\<open>r_value\<close>: the call
  \<^verbatim>\<open>self._layered_r_value_initial(gap_count)\<close>, with the defaults of the other
  arguments.
\<close>

definition window_r_factor_seed :: "material list \<Rightarrow> error + (real list \<times> emiss list)" where
  "window_r_factor_seed mats = layered_r_value_initial mats (gap_count mats) 15 273.15 6.7"

definition window_r_factor :: "air \<Rightarrow> material list \<Rightarrow> (error + real) option" where
  "window_r_factor air mats =
     (if gap_count mats = 0 then
        Some (and_then (and_then (getitem mats 0) r_value) (\<lambda>r.
              and_then (fdiv 1 out_h_simple) (\<lambda>ext_r.
              and_then (in_h_simple (window_inside_emissivity mats)) (\<lambda>h.
              and_then (fdiv 1 h) (\<lambda>int_r. Inr (r + ext_r + int_r))))))
      else
        (case window_r_factor_seed mats of
           Inl e \<Rightarrow> Some (Inl e)
         | Inr (r_vals, emissivities) \<Rightarrow>
             (case solve_r_values air mats r_vals emissivities of
                None \<Rightarrow> None
              | Some (Inl e) \<Rightarrow> Some (Inl e)
              | Some (Inr r_vals) \<Rightarrow> Some (Inr (sum_list r_vals)))))"


text \<open>
  \<^verbatim>\<open>WindowConstruction.temperature_profile\<close>: the angle rule, then the rest with the
  angle it yields. Without gaps the profile is the single pass of the opaque method;
  with gaps it is the seed and the loop.
\<close>

definition window_profile_seed ::
    "material list \<Rightarrow> real \<Rightarrow> real \<Rightarrow> real \<Rightarrow> error + (real list \<times> emiss list)" where
  "window_profile_seed mats outside_temperature inside_temperature wind_speed =
     (let guess = \<bar>inside_temperature - outside_temperature\<bar> / 2;
          guess = (if guess < 1 then 1 else guess);
          avg_guess = ((inside_temperature + outside_temperature) / 2) + 273.15
      in layered_r_value_initial mats (gap_count mats) guess avg_guess wind_speed)"

definition window_profile_at ::
    "air \<Rightarrow> material list \<Rightarrow> real \<Rightarrow> real \<Rightarrow> real \<Rightarrow> real \<Rightarrow> real \<Rightarrow> real
      \<Rightarrow> (error + (real list \<times> real list)) option" where
  "window_profile_at air mats outside_temperature inside_temperature
       wind_speed height angle pressure =
     (if gap_count mats = 0 then
        Some (
          and_then (in_h_simple (window_inside_emissivity mats)) (\<lambda>h_simple.
          and_then (fdiv 1 h_simple) (\<lambda>in_r_init.
          and_then (out_h (window_outside_emissivity mats) wind_speed
                      (outside_temperature + 273.15)) (\<lambda>h_out.
          and_then (fdiv 1 h_out) (\<lambda>out_r.
          and_then (and_then (getitem mats 0) r_value) (\<lambda>mat_r.
          let r_values = [out_r, mat_r, in_r_init]
          in and_then (fdiv in_r_init (sum_list r_values)) (\<lambda>q.
             let in_delta_t = q * (outside_temperature - inside_temperature)
             in and_then (in_h air (window_inside_emissivity mats)
                            (inside_temperature - (in_delta_t / 2) + 273.15)
                            in_delta_t height angle pressure) (\<lambda>h_in.
                and_then (fdiv 1 h_in) (\<lambda>in_r.
                let r_values = butlast r_values @ [in_r]
                in and_then (temperature_profile_from_r_values r_values
                               outside_temperature inside_temperature) (\<lambda>temperatures.
                   Inr (temperatures, r_values)))))))))))
      else
        (case window_profile_seed mats outside_temperature inside_temperature wind_speed of
           Inl e \<Rightarrow> Some (Inl e)
         | Inr (r_values, emissivities) \<Rightarrow>
             (case r_values_loop
                     (refine_r_values air mats emissivities outside_temperature
                        inside_temperature height angle pressure)
                     0 (sum_list r_values) r_values of
                None \<Rightarrow> None
              | Some (Inl e) \<Rightarrow> Some (Inl e)
              | Some (Inr r_values) \<Rightarrow>
                  Some (and_then (temperature_profile_from_r_values r_values
                                    outside_temperature inside_temperature) (\<lambda>temperatures.
                        Inr (temperatures, r_values))))))"

definition window_temperature_profile ::
    "air \<Rightarrow> material list \<Rightarrow> real \<Rightarrow> real \<Rightarrow> real \<Rightarrow> real \<Rightarrow> real \<Rightarrow> real
      \<Rightarrow> (error + (real list \<times> real list)) option" where
  "window_temperature_profile air mats outside_temperature inside_temperature
       wind_speed height angle pressure =
     (let angle = heat_flow_angle angle outside_temperature inside_temperature
      in window_profile_at air mats outside_temperature inside_temperature
           wind_speed height angle pressure)"

text \<open>
  The malformed layer lists: a gas layer first or last; a gas layer, or a shade layer
  that is not the first layer, right after a layer that is not a glazing; two glazing
  layers in a row; two shade layers; a simple glazing system with company.
\<close>

definition malformed_window_layers :: "material list \<Rightarrow> bool" where
  "malformed_window_layers mats =
     ((mats \<noteq> [] \<and> (is_gas_base (hd mats) \<or> is_gas_base (last mats)))
    \<or> (\<exists>xs a b ys. mats = xs @ a # b # ys \<and>
          (is_gas_base b \<and> \<not> is_glazing_base a
         \<or> is_glazing_base a \<and> is_glazing_base b
         \<or> is_shade_base b \<and> \<not> is_glazing_base a))
    \<or> (\<exists>xs s1 ys s2 zs. mats = xs @ s1 # ys @ s2 # zs \<and> is_shade_base s1 \<and> is_shade_base s2)
    \<or> (length mats > 1 \<and> (\<exists>m \<in> set mats. is_simple_glaz_sys m)))"

section \<open>Sample materials and constructions\<close>

text \<open>
  Concrete inputs for the closed statements below. The glass has the resistance and
  emissivity of a clear pane. The three gas layers are custom gases: the first returns
  a conductance from which the arguments of the seed can be read off, the other two
  have conductances that step with the temperature drop across the gap.
\<close>

definition clear_glass :: material where
  "clear_glass = Glazing 0.004 0.84 0.84"




definition osc_gas :: material where
  "osc_gas = Gas (\<lambda>delta_t e_back e_front t_kelvin. 1)
                 (\<lambda>delta_t e_back e_front height angle t_kelvin pressure.
                    if delta_t > 38.75 then 1 else 1 / 100)"

definition osc_window :: "material list" where
  "osc_window = [clear_glass, osc_gas, clear_glass]"

definition latch_gas :: material where
  "latch_gas = Gas (\<lambda>delta_t e_back e_front t_kelvin.
                      if delta_t \<le> 15 then 1 / 10 ^ 14 else 1 / 10 ^ 10)
                   (\<lambda>delta_t e_back e_front height angle t_kelvin pressure.
                      if delta_t > 39 - 1 / 10 ^ 11 then 1 / 10 ^ 14 else 1 / 10 ^ 10)"

definition latch_window :: "material list" where
  "latch_window = [clear_glass, latch_gas, clear_glass]"

text \<open>An air with constant properties, of the order of those of air at room temperature.\<close>

definition sample_air :: air where
  "sample_air = \<lparr>density_at_temperature = (\<lambda>t_kelvin pressure. 1.2),
                  specific_heat_at_temperature = (\<lambda>t_kelvin. 1000),
                  viscosity_at_temperature = (\<lambda>t_kelvin. 2 / 10 ^ 5),
                  conductivity_at_temperature = (\<lambda>t_kelvin. 0.025)\<rparr>"

text \<open>
  What the statements about the sample gases need of the air: positive viscosity and
  conductivity at every positive absolute temperature.
\<close>

definition positive_air :: "air \<Rightarrow> bool" where
  "positive_air air =
     (\<forall>t. 0 < t \<longrightarrow>
        0 < viscosity_at_temperature air t \<and> 0 < conductivity_at_temperature air t)"

section \<open>The temperature profile builder\<close>

lemma profile_loop_spec:
  assumes "r_factor \<noteq> 0" and "length temperatures = Suc i"
  shows "\<exists>ts. profile_loop delta_t r_factor i rs temperatures = Inr ts
           \<and> length ts = length temperatures + length rs
           \<and> take (length temperatures) ts = temperatures
           \<and> (\<forall>j < length rs. ts ! (Suc i + j) = ts ! (i + j) + delta_t * (rs ! j / r_factor))
           \<and> last ts = last temperatures + delta_t * (sum_list rs / r_factor)"
  using assms
proof (induction rs arbitrary: temperatures i)
  case Nil
  then show ?case by simp
next
  case (Cons r rs)
  let ?t = "temperatures ! i"
  let ?ts' = "temperatures @ [?t + delta_t * (r / r_factor)]"
  have len': "length ?ts' = Suc (Suc i)" using Cons.prems by simp
  have get_i: "getitem temperatures (int i) = Inr ?t"
    using Cons.prems by (simp add: getitem_def)
  have last_i: "last temperatures = ?t"
    using Cons.prems by (metis diff_Suc_1 last_conv_nth length_0_conv nat.distinct(1))
  from Cons.IH [OF Cons.prems(1) len'] obtain ts where
    run: "profile_loop delta_t r_factor (Suc i) rs ?ts' = Inr ts"
    and len: "length ts = length ?ts' + length rs"
    and pre: "take (length ?ts') ts = ?ts'"
    and stp: "\<forall>j < length rs. ts ! (Suc (Suc i) + j) = ts ! (Suc i + j) + delta_t * (rs ! j / r_factor)"
    and lst: "last ts = last ?ts' + delta_t * (sum_list rs / r_factor)"
    by blast
  have unfold: "profile_loop delta_t r_factor i (r # rs) temperatures = Inr ts"
    using run get_i Cons.prems(1) by (simp add: fdiv_def)
  have pre_eq: "\<forall>k < Suc (Suc i). ts ! k = ?ts' ! k"
    using pre len' by (metis nth_take)
  have pre_t: "take (length temperatures) ts = temperatures"
  proof -
    have "take (length temperatures) (take (length ?ts') ts) = take (length temperatures) ?ts'"
      by (simp only: pre)
    then show ?thesis by simp
  qed
  have ts_i: "ts ! i = ?t"
    using pre_eq Cons.prems(2) by (simp add: nth_append)
  have ts_Si: "ts ! Suc i = ?t + delta_t * (r / r_factor)"
    using pre_eq Cons.prems(2) by (simp add: nth_append)
  have step: "\<forall>j < length (r # rs).
      ts ! (Suc i + j) = ts ! (i + j) + delta_t * ((r # rs) ! j / r_factor)"
  proof (intro allI impI)
    fix j assume j: "j < length (r # rs)"
    show "ts ! (Suc i + j) = ts ! (i + j) + delta_t * ((r # rs) ! j / r_factor)"
    proof (cases j)
      case 0
      then show ?thesis using ts_i ts_Si by simp
    next
      case (Suc k)
      then have "k < length rs" using j by simp
      with stp Suc show ?thesis by simp
    qed
  qed
  have last_eq: "last ts = last temperatures + delta_t * (sum_list (r # rs) / r_factor)"
    using lst last_i by (simp add: add_divide_distrib distrib_left)
  show ?case
    using unfold len pre_t step last_eq Cons.prems(2) by simp
qed

text \<open>
  C3. For a resistance list \<open>r\<close> of length \<open>k\<close> whose sum is not zero, the profile
  builder returns \<open>k + 1\<close> temperatures: the first is the outdoor temperature, each
  next one adds \<open>(T_in - T_out) * (r[i] / sum r)\<close> to its predecessor, and the last
  is the indoor temperature.
\<close>

theorem temperature_profile_from_r_values_correct:
  assumes "sum_list r \<noteq> 0"
  shows "\<exists>ts. temperature_profile_from_r_values r t_out t_in = Inr ts
           \<and> length ts = length r + 1
           \<and> ts ! 0 = t_out
           \<and> (\<forall>i < length r. ts ! (i + 1) = ts ! i + (t_in - t_out) * (r ! i / sum_list r))
           \<and> last ts = t_in"
proof -
  from profile_loop_spec [OF assms, of "[t_out]" 0 "t_in - t_out" r]
  obtain ts where
    run: "profile_loop (t_in - t_out) (sum_list r) 0 r [t_out] = Inr ts"
    and len: "length ts = length [t_out] + length r"
    and pre: "take (length [t_out]) ts = [t_out]"
    and stp: "\<forall>j < length r. ts ! (Suc 0 + j) = ts ! (0 + j) + (t_in - t_out) * (r ! j / sum_list r)"
    and lst: "last ts = last [t_out] + (t_in - t_out) * (sum_list r / sum_list r)"
    by auto
  have "ts ! 0 = t_out"
    using pre len by (metis One_nat_def length_Cons list.size(3) nth_Cons_0 nth_take zero_less_one)
  moreover have "last ts = t_in" using lst assms by simp
  ultimately show ?thesis
    using run len stp by (simp add: temperature_profile_from_r_values_def)
qed

theorem temperature_profile_from_r_values_witness:
  "temperature_profile_from_r_values [1, 3] (- 18) 22 = Inr [- 18, - 8, 22]"
proof -
  have "sum_list [1, 3 :: real] \<noteq> 0" by simp
  from temperature_profile_from_r_values_correct [OF this, of "- 18" 22]
  show ?thesis
    by (simp add: temperature_profile_from_r_values_def fdiv_def getitem_def)
qed

section \<open>The R-factor of a single opaque layer\<close>

text \<open>
  C4. A single-layer opaque construction with material resistance \<open>R0\<close> and inside
  emissivity \<open>e_in\<close> has the R-factor \<open>R0 + 1/23 + 1/(3.6 + 4.4 * e_in / 0.84)\<close>,
  a closed form without iteration (the divisor must not vanish, as for any float division).
\<close>

theorem opaque_single_layer_r_factor:
  assumes "3.6 + 4.4 * e_in / 0.84 \<noteq> 0"
  shows "opaque_materials_setter [OpaqueMaterial R0 e_in] = Inr [OpaqueMaterial R0 e_in]
       \<and> opaque_r_factor [OpaqueMaterial R0 e_in]
           = Inr (R0 + 1 / 23 + 1 / (3.6 + 4.4 * e_in / 0.84))"
  using assms
  by (simp add: opaque_materials_setter_def opaque_r_factor_def opaque_inside_emissivity_def
      opaque_r_value_def getitem_def fdiv_def out_h_simple_def in_h_simple_def)

theorem opaque_single_layer_r_factor_witness:
  "opaque_r_factor [OpaqueMaterial 2 0.84] = Inr (2 + 1 / 23 + 1 / 8)"
proof -
  have "3.6 + 4.4 * (0.84::real) / 0.84 \<noteq> 0" by simp
  from opaque_single_layer_r_factor [OF this, of 2] show ?thesis by simp
qed

section \<open>The angle rule\<close>

text \<open>
  C5. In both \<^verbatim>\<open>temperature_profile\<close> methods, an outdoor temperature above the
  indoor one and an angle other than 90 replace the angle by \<open>\<bar>180 - angle\<bar>\<close> before
  anything is computed; otherwise the angle is used as given.
\<close>

theorem temperature_profile_angle_rule:
  "(t_out > t_in \<and> angle \<noteq> 90 \<longrightarrow>
      opaque_temperature_profile air ms t_out t_in ws h angle p
        = opaque_profile_at air ms t_out t_in ws h \<bar>180 - angle\<bar> p
      \<and> window_temperature_profile air ms t_out t_in ws h angle p
        = window_profile_at air ms t_out t_in ws h \<bar>180 - angle\<bar> p)
 \<and> (t_out \<le> t_in \<or> angle = 90 \<longrightarrow>
      opaque_temperature_profile air ms t_out t_in ws h angle p
        = opaque_profile_at air ms t_out t_in ws h angle p
      \<and> window_temperature_profile air ms t_out t_in ws h angle p
        = window_profile_at air ms t_out t_in ws h angle p)"
  by (auto simp: opaque_temperature_profile_def window_temperature_profile_def
      heat_flow_angle_def)

theorem temperature_profile_angle_rule_witness:
  "\<forall>air ms ws h p.
     opaque_temperature_profile air ms 30 20 ws h 45 p
       = opaque_profile_at air ms 30 20 ws h 135 p
   \<and> window_temperature_profile air ms 30 20 ws h 45 p
       = window_profile_at air ms 30 20 ws h 135 p
   \<and> opaque_temperature_profile air ms (- 18) 21 ws h 45 p
       = opaque_profile_at air ms (- 18) 21 ws h 45 p
   \<and> window_temperature_profile air ms 30 20 ws h 90 p
       = window_profile_at air ms 30 20 ws h 90 p"
proof (intro allI)
  fix air ms ws h p
  show "opaque_temperature_profile air ms 30 20 ws h 45 p
       = opaque_profile_at air ms 30 20 ws h 135 p
   \<and> window_temperature_profile air ms 30 20 ws h 45 p
       = window_profile_at air ms 30 20 ws h 135 p
   \<and> opaque_temperature_profile air ms (- 18) 21 ws h 45 p
       = opaque_profile_at air ms (- 18) 21 ws h 45 p
   \<and> window_temperature_profile air ms 30 20 ws h 90 p
       = window_profile_at air ms 30 20 ws h 90 p"
    using temperature_profile_angle_rule [of 20 30 45 air ms ws h p]
      temperature_profile_angle_rule [of 21 "- 18" 45 air ms ws h p]
      temperature_profile_angle_rule [of 20 30 90 air ms ws h p]
    by simp
qed

section \<open>The Nusselt correlation at the vertical\<close>

lemma sin_radians_90: "sin (radians 90) = 1"
  by (simp add: radians_def)

lemma rayleigh_c_90_large:
  "(16::real) < 250000 * ((exp (0.72 * 90) / sin (radians 90)) powr (1 / 5))"
proof -
  have "(1::real) \<le> exp (0.72 * 90)" by simp
  then have "(1::real) powr (1 / 5) \<le> (exp (0.72 * 90)) powr (1 / 5)"
    by (intro powr_mono2) simp_all
  then have "(1::real) \<le> (exp (0.72 * 90) / sin (radians 90)) powr (1 / 5)"
    by (simp add: sin_radians_90)
  then show ?thesis by linarith
qed

text \<open>
  C7. At 90 degrees and below the critical Rayleigh number, the branch for angles
  from 15 to 90 yields \<open>0.56 * (Ra * sin 90) ^ (1/4)\<close>, which is the formula of the
  branch for angles above 90 up to 179, taken at 90.
\<close>

theorem nusselt_seam:
  assumes "ra < 250000 * ((exp (0.72 * 90) / sin (radians 90)) powr (1 / 5))"
  shows "nusselt_number 90 ra = Inr (nusselt_inclined ra (sin (radians 90)))
       \<and> nusselt_inclined ra (sin (radians 90)) = 0.56 * ((ra * sin (radians 90)) powr (1 / 4))
       \<and> (\<forall>angle. 90 < angle \<and> angle \<le> 179 \<longrightarrow>
             nusselt_number angle ra = Inr (nusselt_inclined ra (sin (radians angle))))"
  using assms
  by (simp add: nusselt_number_def fdiv_def sin_radians_90 nusselt_inclined_def Let_def)

theorem nusselt_seam_witness:
  "nusselt_number 90 16 = Inr (0.56 * 2)"
proof -
  have "(16::real) powr (1 / 4) = 2"
  proof -
    have "(16::real) = 2 powr 4" by simp
    then have "(16::real) powr (1 / 4) = (2 powr 4) powr (1 / 4)" by simp
    also have "\<dots> = 2 powr (4 * (1 / 4))" by (rule powr_powr)
    finally show ?thesis by simp
  qed
  with nusselt_seam [OF rayleigh_c_90_large] show ?thesis by (simp add: sin_radians_90)
qed

text \<open>The values of the upper branch tend to the value at 90 as the angle falls to 90.\<close>

lemma nusselt_seam_right_limit:
  assumes "0 \<le> ra"
  shows "((\<lambda>angle. nusselt_inclined ra (sin (radians angle)))
            \<longlongrightarrow> nusselt_inclined ra (sin (radians 90))) (at_right 90)"
  unfolding nusselt_inclined_def radians_def
  by (intro tendsto_intros) (use assms in auto)

section \<open>Validation of the layer list\<close>

lemma sharper_window_bound:
  "window_materials_setter mats = Inr c \<Longrightarrow> length mats \<le> 8"
  by (auto simp: window_materials_setter_def split: if_splits)

text \<open>
  C8. Assigning the materials of an opaque or a window construction succeeds only for
  a list of 1 to 10 layers; the empty list and a list of more than 10 layers are
  rejected, by the setter and so by the constructor.
\<close>

theorem layer_count_checked:
  "(opaque_materials_setter mats = Inr ms \<longrightarrow> 1 \<le> length mats \<and> length mats \<le> 10)
 \<and> (window_materials_setter mats = Inr c \<longrightarrow> 1 \<le> length mats \<and> length mats \<le> 10)
 \<and> (length mats = 0 \<or> length mats > 10 \<longrightarrow>
       opaque_materials_setter mats = Inl AssertionError
     \<and> window_materials_setter mats = Inl AssertionError
     \<and> (\<exists>e. opaque_construction_init valid_ep_string name mats = Inl e)
     \<and> (\<exists>e. window_construction_init valid_ep_string name mats = Inl e))"
  by (cases mats; cases "valid_ep_string name")
    (auto simp: opaque_materials_setter_def window_materials_setter_def
      opaque_construction_init_def window_construction_init_def split: if_splits)

theorem layer_count_checked_witness:
  "opaque_materials_setter [] = Inl AssertionError
 \<and> window_materials_setter [] = Inl AssertionError
 \<and> opaque_materials_setter (replicate 11 (OpaqueMaterial 1 0.9)) = Inl AssertionError
 \<and> window_materials_setter (replicate 11 (Glazing 1 0.84 0.84)) = Inl AssertionError
 \<and> opaque_materials_setter [OpaqueMaterial 1 0.9] = Inr [OpaqueMaterial 1 0.9]
 \<and> window_materials_setter [Glazing 1 0.84 0.84]
     = Inr \<lparr>materials = [Glazing 1 0.84 0.84], has_shade = False\<rparr>"
proof -
  have a: "length ([] :: material list) = 0 \<or> length ([] :: material list) > 10" by simp
  have b: "length (replicate 11 (OpaqueMaterial 1 0.9)) = 0
         \<or> length (replicate 11 (OpaqueMaterial 1 0.9)) > 10" by simp
  have c: "length (replicate 11 (Glazing 1 0.84 0.84)) = 0
         \<or> length (replicate 11 (Glazing 1 0.84 0.84)) > 10" by simp
  have d: "opaque_materials_setter [OpaqueMaterial 1 0.9] = Inr [OpaqueMaterial 1 0.9]"
    by (simp add: opaque_materials_setter_def)
  have e: "window_materials_setter [Glazing 1 0.84 0.84]
     = Inr \<lparr>materials = [Glazing 1 0.84 0.84], has_shade = False\<rparr>"
    by (simp add: window_materials_setter_def getitem_def)
  show ?thesis
    using layer_count_checked [of "[]"] a
      layer_count_checked [of "replicate 11 (OpaqueMaterial 1 0.9)"] b
      layer_count_checked [of "replicate 11 (Glazing 1 0.84 0.84)"] c d e
    by blast
qed

lemma loop_simple_glaz_sys:
  assumes "n \<noteq> 1" "is_simple_glaz_sys m"
  shows "window_layers_loop n i gl hs (xs @ m # ys) = Inl AssertionError"
  using assms
  by (induction xs arbitrary: i gl hs) (auto elim: is_simple_glaz_sys.elims)

lemma loop_second_shade:
  assumes "is_shade_base s"
  shows "window_layers_loop n i gl True (ys @ s # zs) = Inl AssertionError"
  using assms
  by (induction ys arbitrary: i gl) (auto elim: is_shade_base.elims)

lemma loop_two_shades:
  assumes "is_shade_base s1" "is_shade_base s2"
  shows "window_layers_loop n i gl hs (xs @ s1 # ys @ s2 # zs) = Inl AssertionError"
  using assms
proof (induction xs arbitrary: i gl hs)
  case Nil
  then show ?case using loop_second_shade [OF Nil(2)] by (auto elim!: is_shade_base.elims)
next
  case (Cons x xs)
  then show ?case by auto
qed

lemma loop_bad_pair:
  assumes "n \<noteq> 1"
    and "is_gas_base b \<and> \<not> is_glazing_base a
       \<or> is_glazing_base a \<and> is_glazing_base b
       \<or> is_shade_base b \<and> \<not> is_glazing_base a"
  shows "window_layers_loop n i gl hs (xs @ a # b # ys) = Inl AssertionError"
  using assms
proof (induction xs arbitrary: i gl hs)
  case Nil
  then show ?case by (cases a; cases b) auto
next
  case (Cons x xs)
  then show ?case by auto
qed

lemma getitem_first: "length xs > 0 \<Longrightarrow> getitem xs 0 = Inr (hd xs)"
  by (cases xs) (simp_all add: getitem_def)

lemma getitem_last: "length xs > 0 \<Longrightarrow> getitem xs (- 1) = Inr (last xs)"
  by (cases xs rule: rev_cases) (simp_all add: getitem_def nth_append)

text \<open>
  C9. A malformed layer list makes the materials setter of a window construction
  raise, so the constructor, which calls the setter, returns no construction.
\<close>

theorem window_structure_rejected:
  assumes "malformed_window_layers mats"
  shows "window_materials_setter mats = Inl AssertionError
       \<and> (\<exists>e. window_construction_init valid_ep_string name mats = Inl e)"
proof -
  have loop: "window_layers_loop (length mats) 0 False False mats = Inl AssertionError"
    if ne: "length mats > 0" and g1: "\<not> is_gas_base (hd mats)" and g2: "\<not> is_gas_base (last mats)"
  proof -
    from assms ne g1 g2 consider
        (pair) xs a b ys where "mats = xs @ a # b # ys"
          "is_gas_base b \<and> \<not> is_glazing_base a
             \<or> is_glazing_base a \<and> is_glazing_base b
             \<or> is_shade_base b \<and> \<not> is_glazing_base a"
      | (shades) xs s1 ys s2 zs where
          "mats = xs @ s1 # ys @ s2 # zs" "is_shade_base s1" "is_shade_base s2"
      | (simple) "length mats > 1" "\<exists>m \<in> set mats. is_simple_glaz_sys m"
      unfolding malformed_window_layers_def by blast
    then show ?thesis
    proof cases
      case pair
      have "length mats \<noteq> 1" using pair(1) by simp
      from loop_bad_pair [OF this pair(2)] show ?thesis using pair(1) by simp
    next
      case shades
      from loop_two_shades [OF shades(2,3)] show ?thesis using shades(1) by simp
    next
      case simple
      then obtain m where m: "m \<in> set mats" "is_simple_glaz_sys m" by blast
      then obtain xs ys where "mats = xs @ m # ys" by (meson split_list)
      moreover have "length mats \<noteq> 1" using simple(1) by simp
      ultimately show ?thesis using loop_simple_glaz_sys m(2) by metis
    qed
  qed
  have setter: "window_materials_setter mats = Inl AssertionError"
    using loop getitem_first [of mats] getitem_last [of mats]
    by (auto simp: window_materials_setter_def)
  then show ?thesis
    by (cases "valid_ep_string name") (simp_all add: window_construction_init_def)
qed

theorem window_structure_rejected_witness:
  "\<forall>u ua f g h.
     window_materials_setter [Glazing 1 0.84 0.84, Glazing 1 0.84 0.84] = Inl AssertionError
   \<and> window_materials_setter [Gas u ua, Glazing 1 0.84 0.84] = Inl AssertionError
   \<and> window_materials_setter [Shade 0.9 None f g h, Gas u ua, Glazing 1 0.84 0.84]
       = Inl AssertionError
   \<and> window_materials_setter [Shade 0.9 None f g h, Glazing 1 0.84 0.84, Shade 0.9 None f g h]
       = Inl AssertionError
   \<and> window_materials_setter [SimpleGlazSys 1, Glazing 1 0.84 0.84] = Inl AssertionError"
proof (intro allI)
  fix u ua f g h
  let ?gl = "Glazing 1 0.84 0.84" and ?sh = "Shade 0.9 None f g h"
  have a: "malformed_window_layers [?gl, ?gl]"
    unfolding malformed_window_layers_def
    by (intro disjI2 disjI1 exI [of _ "[]"] exI [of _ ?gl]) simp
  have b: "malformed_window_layers [Gas u ua, ?gl]"
    unfolding malformed_window_layers_def by simp
  have c: "malformed_window_layers [?sh, Gas u ua, ?gl]"
    unfolding malformed_window_layers_def
    by (intro disjI2 disjI1 exI [of _ "[]"] exI [of _ ?sh] exI [of _ "Gas u ua"] exI [of _ "[?gl]"])
      simp
  have d: "malformed_window_layers [?sh, ?gl, ?sh]"
    unfolding malformed_window_layers_def
    by (intro disjI2 disjI1 exI [of _ "[]"] exI [of _ ?sh] exI [of _ "[?gl]"]) simp
  have e: "malformed_window_layers [SimpleGlazSys 1, ?gl]"
    unfolding malformed_window_layers_def by simp
  show "window_materials_setter [?gl, ?gl] = Inl AssertionError
   \<and> window_materials_setter [Gas u ua, ?gl] = Inl AssertionError
   \<and> window_materials_setter [?sh, Gas u ua, ?gl] = Inl AssertionError
   \<and> window_materials_setter [?sh, ?gl, ?sh] = Inl AssertionError
   \<and> window_materials_setter [SimpleGlazSys 1, ?gl] = Inl AssertionError"
    using window_structure_rejected [OF a] window_structure_rejected [OF b]
      window_structure_rejected [OF c] window_structure_rejected [OF d]
      window_structure_rejected [OF e]
    by blast
qed

section \<open>Indexing of the layer list in the seed\<close>

lemma out_h_lower_bound:
  assumes "0 \<le> e" "0 \<le> wind_speed" "0 \<le> t_kelvin"
  shows "\<exists>h. out_h (Inr e) wind_speed t_kelvin = Inr h \<and> 4 \<le> h"
proof -
  have "0 \<le> 4 * (5.6697 / 10 ^ 8) * e * (t_kelvin ^ 3)" using assms by simp
  moreover have "0 \<le> 4 * wind_speed" using assms by simp
  ultimately show ?thesis by (simp add: out_h_def Let_def)
qed

text \<open>Every other accepted list is read in range by the seed.\<close>

lemma and_then_not_index:
  assumes "m \<noteq> Inl IndexError" "\<And>x. m = Inr x \<Longrightarrow> f x \<noteq> Inl IndexError"
  shows "and_then m f \<noteq> Inl IndexError"
  using assms by (cases m) auto

lemma getitem_in_range:
  assumes "- int (length xs) \<le> k" "k < int (length xs)"
  shows "\<exists>x. getitem xs k = Inr x"
  using assms by (auto simp: getitem_def)

lemma attribute_not_index [simp]:
  "emissivity m \<noteq> Inl IndexError" "emissivity_back m \<noteq> Inl IndexError"
  "r_value m \<noteq> Inl IndexError"
  "call_u_value m a b c d \<noteq> Inl IndexError"
  "call_r_value_exterior m a b g d \<noteq> Inl IndexError"
  "call_r_value_interior m a b g d \<noteq> Inl IndexError"
  "call_r_value_between m a b c g d \<noteq> Inl IndexError"
  by (cases m; simp; cases "sh_emissivity_back m"; simp)+

lemma fdiv_not_index [simp]: "fdiv a b \<noteq> Inl IndexError"
  by (simp add: fdiv_def)

lemma lookup_emissivity_not_index:
  assumes "- int (length mats) \<le> k" "k < int (length mats)"
  shows "and_then (getitem mats k) emissivity \<noteq> Inl IndexError"
    and "and_then (getitem mats k) emissivity_back \<noteq> Inl IndexError"
    and "emissivity_back_or_emissivity mats k \<noteq> Inl IndexError"
proof -
  obtain x where x: "getitem mats k = Inr x" using getitem_in_range [OF assms] by blast
  show "and_then (getitem mats k) emissivity \<noteq> Inl IndexError" by (simp add: x)
  show "and_then (getitem mats k) emissivity_back \<noteq> Inl IndexError" by (simp add: x)
  show "emissivity_back_or_emissivity mats k \<noteq> Inl IndexError"
    by (cases "emissivity_back x"; cases "emissivity x")
      (auto simp: emissivity_back_or_emissivity_def x split: error.splits)
qed


lemma single_opaque_rejected:
  "window_materials_setter [OpaqueMaterial r a] = Inl AssertionError"
  by (simp add: window_materials_setter_def getitem_def)

lemma accepted_ends:
  assumes "window_materials_setter mats = Inr c"
  shows "0 < length mats" and "\<not> is_gas_base (last mats)"
proof -
  show len: "0 < length mats"
    using assms by (auto simp: window_materials_setter_def split: if_splits)
  show "\<not> is_gas_base (last mats)"
  proof
    assume "is_gas_base (last mats)"
    then have "window_materials_setter mats = Inl AssertionError"
      using len getitem_first [of mats] getitem_last [of mats]
      by (auto simp: window_materials_setter_def)
    with assms show False by simp
  qed
qed

lemma initial_layer_index_safe:
  assumes ok: "window_materials_setter mats = Inr c"
    and odd: "\<not> (length mats = 1 \<and> is_shade_base (hd mats))"
    and i: "i < length mats"
  shows "initial_layer mats dt avg i (mats ! i) \<noteq> Inl IndexError"
proof -
  note ends = accepted_ends [OF ok]
  have prev: "- int (length mats) \<le> int i - 1" "int i - 1 < int (length mats)"
    using i by simp_all
  have gas_next: "int i + 1 < int (length mats)" if "is_gas_base (mats ! i)"
  proof -
    have "i \<noteq> length mats - 1"
      using that ends by (auto simp: last_conv_nth)
    then show ?thesis using i by simp
  qed
  have next_neg: "- int (length mats) \<le> int i + 1" by simp
  show ?thesis
  proof (cases "is_glazing_base (mats ! i)")
    case True
    then show ?thesis by (simp add: initial_layer_def and_then_not_index)
  next
    case glz: False
    show ?thesis
    proof (cases "is_gas_base (mats ! i)")
      case True
      then show ?thesis
        using glz lookup_emissivity_not_index [OF next_neg gas_next [OF True]]
          lookup_emissivity_not_index [OF prev]
        by (simp add: initial_layer_def and_then_not_index)
    next
      case gas: False
      have two: "2 \<le> length mats"
      proof (rule ccontr)
        assume "\<not> 2 \<le> length mats"
        then have "length mats = 1" using ends(1) by linarith
        then obtain m where m: "mats = [m]" by (cases mats) auto
        with glz gas i odd ok show False
          by (cases m) (simp_all add: single_opaque_rejected)
      qed
      show ?thesis
      proof (cases "i = 0")
        case True
        then have "int i + 1 < int (length mats)" using two by simp
        from lookup_emissivity_not_index [OF next_neg this] glz gas True
        show ?thesis by (simp add: initial_layer_def and_then_not_index)
      next
        case mid: False
        show ?thesis
        proof (cases "int i = int (length mats) - 1")
          case True
          with lookup_emissivity_not_index [OF prev] glz gas mid
          show ?thesis by (simp add: initial_layer_def and_then_not_index)
        next
          case False
          then have "int i + 1 < int (length mats)" using i by simp
          from lookup_emissivity_not_index [OF next_neg this]
            lookup_emissivity_not_index [OF prev] glz gas mid False
          show ?thesis by (simp add: initial_layer_def and_then_not_index)
        qed
      qed
    qed
  qed
qed

lemma initial_loop_index_safe:
  assumes "\<forall>j < length rest. initial_layer mats dt avg (k + j) (rest ! j) \<noteq> Inl IndexError"
  shows "initial_loop mats dt avg k rest rv em \<noteq> Inl IndexError"
  using assms
proof (induction rest arbitrary: k rv em)
  case Nil
  then show ?case by simp
next
  case (Cons m rest)
  have head: "initial_layer mats dt avg k m \<noteq> Inl IndexError"
    using Cons.prems by force
  have tail: "\<forall>j < length rest. initial_layer mats dt avg (Suc k + j) (rest ! j) \<noteq> Inl IndexError"
    using Cons.prems by force
  show ?case
  proof (cases "initial_layer mats dt avg k m")
    case (Inl e)
    with head show ?thesis by simp
  next
    case (Inr p)
    then show ?thesis using Cons.IH [OF tail] by (cases p) simp
  qed
qed

lemma seed_index_safe:
  assumes ok: "window_materials_setter mats = Inr c"
    and odd: "\<not> (length mats = 1 \<and> is_shade_base (hd mats))"
  shows "layered_r_value_initial mats n dg avg ws \<noteq> Inl IndexError"
proof -
  note ends = accepted_ends [OF ok]
  have first: "- int (length mats) \<le> 0" "0 < int (length mats)" using ends(1) by linarith+
  have final: "- int (length mats) \<le> - 1" "- 1 < int (length mats)" using ends(1) by linarith+
  obtain m0 where m0: "getitem mats 0 = Inr m0" using getitem_in_range [OF first] by blast
  have outside: "window_outside_emissivity mats \<noteq> Inl IndexError"
    by (simp add: window_outside_emissivity_def m0)
  have inside: "window_inside_emissivity mats \<noteq> Inl IndexError"
    using lookup_emissivity_not_index(3) [OF final]
    by (simp add: window_inside_emissivity_def m0)
  have out: "out_h (window_outside_emissivity mats) ws (avg - dg) \<noteq> Inl IndexError"
    using outside by (simp add: out_h_def and_then_not_index)
  have ins: "in_h_simple (window_inside_emissivity mats) \<noteq> Inl IndexError"
    using inside by (simp add: in_h_simple_def and_then_not_index)
  have loop: "initial_loop mats dt avg 0 mats rv [] \<noteq> Inl IndexError" for dt rv
    by (rule initial_loop_index_safe) (simp add: initial_layer_index_safe [OF ok odd])
  have tail: "and_then (in_h_simple (window_inside_emissivity mats))
      (\<lambda>h_in. and_then (fdiv 1 h_in) (\<lambda>in_r. Inr (x1 @ [in_r], x2))) \<noteq> Inl IndexError"
    for x1 :: "real list" and x2 :: "emiss list"
    by (intro and_then_not_index ins fdiv_not_index) simp
  show ?thesis
    unfolding layered_r_value_initial_def
    by (intro and_then_not_index out loop fdiv_not_index) (simp add: tail split: prod.splits)
qed

text \<open>
  C10. Every lookup of a neighbouring layer in the seed of an accepted layer list should
  be in range. It is, by \<open>seed_index_safe\<close>, for every accepted list but one: a window
  construction of a single shade layer passes the setter and counts one gap; its seed
  then reads \<^verbatim>\<open>materials[1]\<close>, which does not exist, and \<^verbatim>\<open>r_factor\<close> raises
  \<^verbatim>\<open>IndexError\<close>.
\<close>

theorem single_shade_index_error:
  "\<forall>air f g h.
     window_materials_setter [Shade 0.9 None f g h]
       = Inr \<lparr>materials = [Shade 0.9 None f g h], has_shade = True\<rparr>
   \<and> gap_count [Shade 0.9 None f g h] = 1
   \<and> initial_layer [Shade 0.9 None f g h] 15 273.15 0 (Shade 0.9 None f g h) = Inl IndexError
   \<and> layered_r_value_initial [Shade 0.9 None f g h] 1 15 273.15 6.7 = Inl IndexError
   \<and> window_r_factor air [Shade 0.9 None f g h] = Some (Inl IndexError)"
proof (intro allI)
  fix air :: air and f g :: "real \<Rightarrow> real \<Rightarrow> geometry option \<Rightarrow> real \<Rightarrow> real"
    and h :: "real \<Rightarrow> real \<Rightarrow> real \<Rightarrow> geometry option \<Rightarrow> real \<Rightarrow> real"
  let ?s = "Shade 0.9 None f g h"
  have setter: "window_materials_setter [?s] = Inr \<lparr>materials = [?s], has_shade = True\<rparr>"
    by (simp add: window_materials_setter_def getitem_def)
  have gaps: "gap_count [?s] = 1"
    by (simp add: gap_count_def)
  have layer: "initial_layer [?s] 15 273.15 0 ?s = Inl IndexError"
    by (simp add: initial_layer_def getitem_def)
  obtain h_out where h_out: "out_h (Inr 0.9) 6.7 (273.15 - 15) = Inr h_out" "4 \<le> h_out"
    using out_h_lower_bound [of "0.9" "6.7" "273.15 - 15"] by auto
  have seed: "layered_r_value_initial [?s] 1 15 273.15 6.7 = Inl IndexError"
    using h_out layer
    by (simp add: layered_r_value_initial_def window_outside_emissivity_def getitem_def fdiv_def)
  have "window_r_factor air [?s] = Some (Inl IndexError)"
    using gaps seed by (simp add: window_r_factor_def window_r_factor_seed_def)
  with setter gaps layer seed
  show "window_materials_setter [?s] = Inr \<lparr>materials = [?s], has_shade = True\<rparr>
   \<and> gap_count [?s] = 1
   \<and> initial_layer [?s] 15 273.15 0 ?s = Inl IndexError
   \<and> layered_r_value_initial [?s] 1 15 273.15 6.7 = Inl IndexError
   \<and> window_r_factor air [?s] = Some (Inl IndexError)"
    by simp
qed

section \<open>The seed of the iterative solve\<close>

lemma and_then_Inr: "and_then m f = Inr y \<Longrightarrow> \<exists>x. m = Inr x \<and> f x = Inr y"
  by (cases m) simp_all







lemmas seed_eval = window_profile_seed_def window_r_factor_seed_def gap_count_def
  layered_r_value_initial_def initial_layer_def out_h_def in_h_simple_def
  window_outside_emissivity_def window_inside_emissivity_def
  emissivity_back_or_emissivity_def getitem_def fdiv_def Let_def power3_eq_cube









section \<open>The iterative solve\<close>

lemma nusselt_vertical_nonneg:
  assumes "0 \<le> ra"
  shows "\<exists>nu. nusselt_number 90 ra = Inr nu \<and> 0 \<le> nu"
proof -
  define rc where "rc = 250000 * (exp (0.72 * 90) powr (1 / 5) :: real)"
  have rc0: "0 \<le> rc" by (simp add: rc_def)
  show ?thesis
  proof (cases "ra < rc")
    case True
    then have "nusselt_number 90 ra = Inr (0.56 * (ra powr (1 / 4)))"
      by (simp add: nusselt_number_def fdiv_def sin_radians_90 nusselt_inclined_def rc_def)
    moreover have "(0::real) \<le> 0.56 * (ra powr (1 / 4))" by simp
    ultimately show ?thesis by blast
  next
    case False
    then have le: "rc \<le> ra" by simp
    have eq: "nusselt_number 90 ra =
        Inr (0.56 * (rc powr (1 / 4)) + 0.13 * (ra powr (1 / 3) - rc powr (1 / 3)))"
      using False
      by (simp add: nusselt_number_def fdiv_def sin_radians_90 nusselt_inclined_def rc_def Let_def)
    have "rc powr (1 / 3) \<le> ra powr (1 / 3)"
      using rc0 le by (intro powr_mono2) simp_all
    then have "0 \<le> 0.56 * (rc powr (1 / 4)) + 0.13 * (ra powr (1 / 3) - rc powr (1 / 3))"
      by simp
    with eq show ?thesis by blast
  qed
qed

lemma in_h_vertical_lower:
  assumes "0 < t" "0 < viscosity_at_temperature air t" "0 < conductivity_at_temperature air t"
  shows "\<exists>h. in_h air (Inr e) t dt 1 90 p = Inr h \<and> 4 * (5.6697 / 10 ^ 8) * e * t ^ 3 \<le> h"
proof -
  let ?num = "((density_at_temperature air t p) ^ 2) * (1 ^ 3) * 9.81 *
      specific_heat_at_temperature air t * dt"
  let ?den = "t * viscosity_at_temperature air t * conductivity_at_temperature air t"
  have den: "?den \<noteq> 0" using assms by simp
  obtain nu where nu: "nusselt_number 90 \<bar>?num / ?den\<bar> = Inr nu" "0 \<le> nu"
    using nusselt_vertical_nonneg [of "\<bar>?num / ?den\<bar>"] by auto
  have "in_h air (Inr e) t dt 1 90 p =
      Inr (nu * (conductivity_at_temperature air t / 1) + 4 * (5.6697 / 10 ^ 8) * e * t ^ 3)"
    unfolding in_h_def Let_def fdiv_def using den nu(1) by simp
  moreover have "0 \<le> nu * (conductivity_at_temperature air t / 1)"
    using nu(2) assms(3) by simp
  ultimately show ?thesis by (intro exI conjI) (assumption, simp)
qed


lemma profile_five:
  assumes "a + b + c + d + e \<noteq> 0"
  shows "temperature_profile_from_r_values [a, b, c, d, e] t_out t_in =
     Inr [t_out,
          t_out + (t_in - t_out) * (a / (a + b + c + d + e)),
          t_out + (t_in - t_out) * (a / (a + b + c + d + e))
                + (t_in - t_out) * (b / (a + b + c + d + e)),
          t_out + (t_in - t_out) * (a / (a + b + c + d + e))
                + (t_in - t_out) * (b / (a + b + c + d + e))
                + (t_in - t_out) * (c / (a + b + c + d + e)),
          t_in - (t_in - t_out) * (e / (a + b + c + d + e)),
          t_in]"
proof -
  let ?S = "a + b + c + d + e"
  let ?D = "t_in - t_out"
  have S: "sum_list [a, b, c, d, e] = ?S" by simp
  have run: "temperature_profile_from_r_values [a, b, c, d, e] t_out t_in =
     Inr [t_out,
          t_out + ?D * (a / ?S),
          t_out + ?D * (a / ?S) + ?D * (b / ?S),
          t_out + ?D * (a / ?S) + ?D * (b / ?S) + ?D * (c / ?S),
          t_out + ?D * (a / ?S) + ?D * (b / ?S) + ?D * (c / ?S) + ?D * (d / ?S),
          t_out + ?D * (a / ?S) + ?D * (b / ?S) + ?D * (c / ?S) + ?D * (d / ?S) + ?D * (e / ?S)]"
    unfolding temperature_profile_from_r_values_def Let_def S
    using assms by (simp add: getitem_def fdiv_def)
  have total: "?D * (a / ?S) + ?D * (b / ?S) + ?D * (c / ?S) + ?D * (d / ?S) + ?D * (e / ?S) = ?D"
  proof -
    have "?D * (?S / ?S) =
        ?D * (a / ?S) + ?D * (b / ?S) + ?D * (c / ?S) + ?D * (d / ?S) + ?D * (e / ?S)"
      by (simp only: add_divide_distrib distrib_left)
    moreover have "?S / ?S = 1" using assms by simp
    ultimately show ?thesis by simp
  qed
  have t5: "t_out + ?D * (a / ?S) + ?D * (b / ?S) + ?D * (c / ?S) + ?D * (d / ?S) + ?D * (e / ?S) = t_in"
    using total by linarith
  have t4: "t_out + ?D * (a / ?S) + ?D * (b / ?S) + ?D * (c / ?S) + ?D * (d / ?S)
      = t_in - ?D * (e / ?S)"
    using total by linarith
  show ?thesis unfolding run using t5 t4 by simp
qed

lemma and_then_assoc:
  "and_then (and_then m f) g = and_then m (\<lambda>x. and_then (f x) g)"
  by (cases m) simp_all

lemma layered_three_layer:
  "layered_r_value air [Glazing g1 e1 b1, Gas u ua, Glazing g2 e2 b2]
      [t0, t1, t2, t3, t4, t5] [r0, x1, R, x2, f] [ENone, EPair eb ef, ENone] h ang p =
     and_then (fdiv 1 (ua \<bar>t2 - t3\<bar> eb ef h ang (((t2 + t3) / 2) + 273.15) p)) (\<lambda>Rg.
     and_then (in_h air (Inr b2) (((t5 + t4) / 2) + 273.15) \<bar>t5 - t4\<bar> h ang p) (\<lambda>h_in.
     and_then (fdiv 1 h_in) (\<lambda>f'. Inr [r0, x1, Rg, x2, f'])))"
  by (simp add: layered_r_value_def refined_layer_def gap_conditions_def getitem_def
      window_inside_emissivity_def emissivity_back_or_emissivity_def and_then_assoc)


lemma refine_three_layer:
  assumes "r0 + x1 + R + x2 + f \<noteq> 0"
  shows "refine_r_values air
           [Glazing g1 e1 b1, Gas u (\<lambda>delta_t e_back e_front height angle t_kelvin pressure. F delta_t),
            Glazing g2 e2 b2]
           [ENone, EPair eb ef, ENone] t_out t_in h ang p [r0, x1, R, x2, f] =
     and_then (fdiv 1 (F \<bar>(t_in - t_out) * (R / (r0 + x1 + R + x2 + f))\<bar>)) (\<lambda>Rg.
     and_then (in_h air (Inr b2)
                 (t_in - (t_in - t_out) * (f / (r0 + x1 + R + x2 + f)) / 2 + 273.15)
                 \<bar>(t_in - t_out) * (f / (r0 + x1 + R + x2 + f))\<bar> h ang p) (\<lambda>h_in.
     and_then (fdiv 1 h_in) (\<lambda>f'. Inr [r0, x1, Rg, x2, f'])))"
proof -
  let ?S = "r0 + x1 + R + x2 + f"
  let ?D = "t_in - t_out"
  have a: "\<bar>(t_out + ?D * (r0 / ?S) + ?D * (x1 / ?S))
        - (t_out + ?D * (r0 / ?S) + ?D * (x1 / ?S) + ?D * (R / ?S))\<bar> = \<bar>?D * (R / ?S)\<bar>"
    by simp
  have b: "\<bar>t_in - (t_in - ?D * (f / ?S))\<bar> = \<bar>?D * (f / ?S)\<bar>"
    by simp
  have half: "(x + (x - y)) / 2 + k = x - y / 2 + k" for x y k :: real
    by (simp add: add_divide_distrib diff_divide_distrib)
  have c: "(t_in + (t_in - ?D * (f / ?S))) / 2 + 273.15 = t_in - ?D * (f / ?S) / 2 + 273.15"
    by (rule half)
  show ?thesis
    unfolding refine_r_values_def profile_five [OF assms] and_then.simps layered_three_layer a b c
    ..
qed


lemma inside_film_bounds:
  assumes "positive_air air" "0 < f" "f < S"
  shows "\<exists>h. in_h air (Inr 0.84) (21 - 39 * (f / S) / 2 + 273.15) \<bar>39 * (f / S)\<bar> 1 90 101325
             = Inr h \<and> 3.9 \<le> h"
proof -
  let ?t = "21 - 39 * (f / S) / 2 + 273.15 :: real"
  have S: "0 < S" using assms by linarith
  have q: "0 < f / S" "f / S < 1" using assms S by simp_all
  have lin: "274 \<le> 21 - 39 * x / 2 + 273.15" if "0 < x" "x < 1" for x :: real
    using that by simp
  have t: "274 \<le> ?t" using lin [OF q] by simp
  then have t0: "0 < ?t" by linarith
  obtain h where h: "in_h air (Inr 0.84) ?t \<bar>39 * (f / S)\<bar> 1 90 101325 = Inr h"
    and low: "4 * (5.6697 / 10 ^ 8) * 0.84 * ?t ^ 3 \<le> h"
    using in_h_vertical_lower [OF t0, of air "0.84" "\<bar>39 * (f / S)\<bar>" 101325] assms(1) t0
    unfolding positive_air_def by blast
  have "(274::real) ^ 3 \<le> ?t ^ 3" using t by (intro power_mono) simp_all
  then have "4 * (5.6697 / 10 ^ 8) * 0.84 * (274::real) ^ 3 \<le> 4 * (5.6697 / 10 ^ 8) * 0.84 * ?t ^ 3"
    by simp
  moreover have "(3.9::real) \<le> 4 * (5.6697 / 10 ^ 8) * 0.84 * 274 ^ 3"
    by (simp add: power3_eq_cube)
  ultimately have "3.9 \<le> h" using low by linarith
  with h show ?thesis by blast
qed


lemma osc_step:
  assumes air: "positive_air air" and r0: "0 < r0" "r0 \<le> 1 / 30"
    and R: "R = 1 \<or> R = 100" and f: "0 < f" "f \<le> 0.3"
  shows "\<exists>f'. refine_r_values air osc_window [ENone, EPair 0.84 0.84, ENone]
                (- 18) 21 1 90 101325 [r0, 0.004, R, 0.004, f]
              = Inr [r0, 0.004, 101 - R, 0.004, f'] \<and> 0 < f' \<and> f' \<le> 0.3"
proof -
  define S where "S = r0 + 0.004 + R + 0.004 + f"
  have R0: "0 < R" using R by auto
  have S0: "0 < S" using r0 R0 f by (simp add: S_def)
  have fS: "f < S" using r0 R0 by (simp add: S_def)
  obtain h where h: "in_h air (Inr 0.84) (21 - 39 * (f / S) / 2 + 273.15) \<bar>39 * (f / S)\<bar>
                       1 90 101325 = Inr h" and h_low: "3.9 \<le> h"
    using inside_film_bounds [OF air f(1) fS] by blast
  have gap: "(if 38.75 < \<bar>39 * (R / S)\<bar> then 1 else 1 / 100 :: real) = 1 / (101 - R)"
  proof -
    from R show ?thesis
    proof
      assume R1: "R = 1"
      have "1.008 < S" using r0 f R1 by (simp add: S_def)
      then have "39 / S \<le> 38.75" using S0 by (simp add: field_simps)
      moreover have "\<bar>39 * (R / S)\<bar> = 39 / S" using R1 S0 by simp
      ultimately show ?thesis using R1 by simp
    next
      assume R100: "R = 100"
      have "S < 100.4" using r0 f R100 by (simp add: S_def)
      then have "38.75 < 3900 / S" using S0 by (simp add: field_simps)
      moreover have "\<bar>39 * (R / S)\<bar> = 3900 / S" using R100 S0 by simp
      ultimately show ?thesis using R100 by simp
    qed
  qed
  have step: "refine_r_values air osc_window [ENone, EPair 0.84 0.84, ENone]
                (- 18) 21 1 90 101325 [r0, 0.004, R, 0.004, f]
              = Inr [r0, 0.004, 101 - R, 0.004, 1 / h]"
    unfolding osc_window_def clear_glass_def osc_gas_def
    using S0 h h_low gap R
    by (subst refine_three_layer) (auto simp: S_def fdiv_def)
  have "0 < 1 / h" "1 / h \<le> 0.3" using h_low by (simp_all add: field_simps)
  with step show ?thesis by blast
qed


lemma loop_partial:
  assumes "r_values_loop body r_last r_next r_vals = Some (Inr rs)"
  shows "(\<bar>r_next - r_last\<bar> \<le> 0.001 \<and> rs = r_vals)
       \<or> (\<exists>prev. body prev = Inr rs \<and> \<bar>sum_list rs - sum_list prev\<bar> \<le> 0.001)"
proof -
  define P where "P b rl rn rv res \<longleftrightarrow>
      (\<forall>rs. res = Inr rs \<longrightarrow>
         (\<bar>rn - rl\<bar> \<le> 0.001 \<and> rs = rv)
       \<or> (\<exists>prev. b prev = Inr rs \<and> \<bar>sum_list rs - sum_list prev\<bar> \<le> 0.001))"
    for b :: "real list \<Rightarrow> error + real list" and rl rn :: real and rv :: "real list"
      and res :: "error + real list"
  have step: "P b rl rn rv res"
    if IH: "\<And>b rl rn rv y. loop b rl rn rv = Some y \<Longrightarrow> P b rl rn rv y"
      and unf: "(if 0.001 < \<bar>rn - rl\<bar>
             then case b rv of Inl e \<Rightarrow> Some (Inl e)
                  | Inr rv' \<Rightarrow> loop b (sum_list rv) (sum_list rv') rv'
             else Some (Inr rv)) = Some res"
    for loop b rl rn rv res
  proof (cases "0.001 < \<bar>rn - rl\<bar>")
    case False
    with unf have "res = Inr rv" by simp
    with False show ?thesis unfolding P_def by simp
  next
    case True
    show ?thesis
    proof (cases "b rv")
      case (Inl e)
      with True unf have "res = Inl e" by simp
      then show ?thesis unfolding P_def by simp
    next
      case (Inr rv')
      with True unf have call: "loop b (sum_list rv) (sum_list rv') rv' = Some res" by simp
      have "P b (sum_list rv) (sum_list rv') rv' res" by (rule IH [OF call])
      then have inner: "(\<bar>sum_list rv' - sum_list rv\<bar> \<le> 0.001 \<and> rs = rv')
          \<or> (\<exists>prev. b prev = Inr rs \<and> \<bar>sum_list rs - sum_list prev\<bar> \<le> 0.001)"
        if "res = Inr rs" for rs
        using that unfolding P_def by blast
      have "\<exists>prev. b prev = Inr rs \<and> \<bar>sum_list rs - sum_list prev\<bar> \<le> 0.001"
        if "res = Inr rs" for rs
        using inner [OF that] Inr by blast
      then show ?thesis unfolding P_def by blast
    qed
  qed
  have "P body r_last r_next r_vals (Inr rs)"
    by (rule r_values_loop.raw_induct [where P = P, OF step assms])
  then show ?thesis unfolding P_def by blast
qed

lemma osc_never_returns:
  assumes air: "positive_air air" and r0: "0 < r0" "r0 \<le> 1 / 30"
    and R: "R = 1 \<or> R = 100" and f: "0 < f" "f \<le> 0.3"
    and gap: "\<bar>r_next - r_last\<bar> > 0.001"
  shows "r_values_loop
           (refine_r_values air osc_window [ENone, EPair 0.84 0.84, ENone]
              (- 18) 21 1 90 101325)
           r_last r_next [r0, 0.004, R, 0.004, f] = None"
proof -
  let ?B = "refine_r_values air osc_window [ENone, EPair 0.84 0.84, ENone]
              (- 18) 21 1 90 101325"
  define Inv where "Inv r_last r_next r_vals \<longleftrightarrow>
      (\<exists>R f. r_vals = [r0, 0.004, R, 0.004, f] \<and> (R = 1 \<or> R = 100) \<and> 0 < f \<and> f \<le> 0.3
              \<and> \<bar>r_next - r_last\<bar> > 0.001)" for r_last r_next :: real and r_vals
  define P where "P body r_last r_next r_vals res \<longleftrightarrow> (body = ?B \<longrightarrow> \<not> Inv r_last r_next r_vals)"
    for body :: "real list \<Rightarrow> error + real list" and r_last r_next r_vals
      and res :: "error + real list"
  have step: "P body r_last r_next r_vals res"
    if IH: "\<And>b rl rn rv y. loop b rl rn rv = Some y \<Longrightarrow> P b rl rn rv y"
      and unf: "(if 0.001 < \<bar>r_next - r_last\<bar>
             then case body r_vals of Inl e \<Rightarrow> Some (Inl e)
                  | Inr r_vals' \<Rightarrow> loop body (sum_list r_vals) (sum_list r_vals') r_vals'
             else Some (Inr r_vals)) = Some res"
    for loop body r_last r_next r_vals res
    unfolding P_def
  proof (intro impI notI)
    assume B: "body = ?B"
    assume "Inv r_last r_next r_vals"
    then obtain R f where rv: "r_vals = [r0, 0.004, R, 0.004, f]" and R: "R = 1 \<or> R = 100"
      and f: "0 < f" "f \<le> 0.3" and gap: "\<bar>r_next - r_last\<bar> > 0.001"
      unfolding Inv_def by blast
    from osc_step [OF air r0 R f] obtain f' where
      step: "?B [r0, 0.004, R, 0.004, f] = Inr [r0, 0.004, 101 - R, 0.004, f']"
      and f': "0 < f'" "f' \<le> 0.3"
      by blast
    have next_call: "loop body (sum_list r_vals) (sum_list [r0, 0.004, 101 - R, 0.004, f'])
          [r0, 0.004, 101 - R, 0.004, f'] = Some res"
      using unf unfolding B rv step using gap by simp
    have R': "101 - R = 1 \<or> 101 - R = 100" using R by auto
    have diff: "sum_list [r0, 0.004, 101 - R, 0.004, f'] - sum_list r_vals
        = (101 - R - R) + (f' - f)"
      unfolding rv by simp
    have far: "\<bar>sum_list [r0, 0.004, 101 - R, 0.004, f'] - sum_list r_vals\<bar> > 0.001"
      unfolding diff using R f f' by (elim disjE) simp_all
    have "Inv (sum_list r_vals) (sum_list [r0, 0.004, 101 - R, 0.004, f'])
            [r0, 0.004, 101 - R, 0.004, f']"
      unfolding Inv_def using R' f' far by blast
    with IH [OF next_call] B show False unfolding P_def by simp
  qed
  have "P body r_last r_next r_vals res"
    if "r_values_loop body r_last r_next r_vals = Some res" for body r_last r_next r_vals res
    by (rule r_values_loop.raw_induct [where P = P, OF step that])
  moreover have "Inv r_last r_next [r0, 0.004, R, 0.004, f]"
    unfolding Inv_def using R f gap by blast
  ultimately have "r_values_loop ?B r_last r_next [r0, 0.004, R, 0.004, f] \<noteq> Some res" for res
    unfolding P_def by blast
  then show ?thesis by (cases "r_values_loop ?B r_last r_next [r0, 0.004, R, 0.004, f]") auto
qed


lemma osc_window_seed:
  "window_r_factor_seed osc_window =
     Inr ([1 / (4 + 4 * 6.7 + 4 * (5.6697 / 10 ^ 8) * 0.84 * (273.15 - 15) ^ 3),
           0.004, 1, 0.004, 1 / 8],
          [ENone, EPair 0.84 0.84, ENone])"
  by (simp add: seed_eval osc_window_def clear_glass_def osc_gas_def)

lemma default_out_r_bounds:
  "0 < 1 / (4 + 4 * 6.7 + 4 * (5.6697 / 10 ^ 8) * 0.84 * (273.15 - 15) ^ 3 :: real)"
  "1 / (4 + 4 * 6.7 + 4 * (5.6697 / 10 ^ 8) * 0.84 * (273.15 - 15) ^ 3 :: real) \<le> 1 / 30"
  by (simp_all add: power3_eq_cube)

lemma osc_window_diverges:
  assumes air: "positive_air air"
  shows "solve_r_values air osc_window
           [1 / (4 + 4 * 6.7 + 4 * (5.6697 / 10 ^ 8) * 0.84 * (273.15 - 15) ^ 3),
            0.004, 1, 0.004, 1 / 8]
           [ENone, EPair 0.84 0.84, ENone] = None"
proof -
  define r0 :: real
    where "r0 = 1 / (4 + 4 * 6.7 + 4 * (5.6697 / 10 ^ 8) * 0.84 * (273.15 - 15) ^ 3)"
  have r0: "0 < r0" "r0 \<le> 1 / 30"
    unfolding r0_def by (rule default_out_r_bounds)+
  have big: "\<bar>sum_list [r0, 0.004, 1, 0.004, 1 / 8] - 0\<bar> > 0.001"
    using r0(1) by simp
  have "r_values_loop
           (refine_r_values air osc_window [ENone, EPair 0.84 0.84, ENone]
              (- 18) 21 1 90 101325)
           0 (sum_list [r0, 0.004, 1, 0.004, 1 / 8]) [r0, 0.004, 1, 0.004, 1 / 8] = None"
    by (rule osc_never_returns [OF air r0 _ _ _ big]) simp_all
  then show ?thesis
    unfolding solve_r_values_def r0_def by simp
qed


lemma osc_profile_seed:
  "window_profile_seed osc_window (- 18) 21 6.7 =
     Inr ([1 / (4 + 4 * 6.7 + 4 * (5.6697 / 10 ^ 8) * 0.84 * (274.65 - 19.5) ^ 3),
           0.004, 1, 0.004, 1 / 8],
          [ENone, EPair 0.84 0.84, ENone])"
  by (simp add: seed_eval osc_window_def clear_glass_def osc_gas_def)

lemma profile_out_r_bounds:
  "0 < 1 / (4 + 4 * 6.7 + 4 * (5.6697 / 10 ^ 8) * 0.84 * (274.65 - 19.5) ^ 3 :: real)"
  "1 / (4 + 4 * 6.7 + 4 * (5.6697 / 10 ^ 8) * 0.84 * (274.65 - 19.5) ^ 3 :: real) \<le> 1 / 30"
  by (simp_all add: power3_eq_cube)

lemma osc_gap_count: "gap_count osc_window = 1"
  by (simp add: gap_count_def osc_window_def clear_glass_def osc_gas_def)

lemma osc_profile_diverges:
  assumes air: "positive_air air"
  shows "window_temperature_profile air osc_window (- 18) 21 6.7 1 90 101325 = None"
proof -
  define r0 :: real
    where "r0 = 1 / (4 + 4 * 6.7 + 4 * (5.6697 / 10 ^ 8) * 0.84 * (274.65 - 19.5) ^ 3)"
  have r0: "0 < r0" "r0 \<le> 1 / 30"
    unfolding r0_def by (rule profile_out_r_bounds)+
  have big: "\<bar>sum_list [r0, 0.004, 1, 0.004, 1 / 8] - 0\<bar> > 0.001"
    using r0(1) by simp
  have loop: "r_values_loop
           (refine_r_values air osc_window [ENone, EPair 0.84 0.84, ENone]
              (- 18) 21 1 90 101325)
           0 (sum_list [r0, 0.004, 1, 0.004, 1 / 8]) [r0, 0.004, 1, 0.004, 1 / 8] = None"
    by (rule osc_never_returns [OF air r0 _ _ _ big]) simp_all
  have seed: "window_profile_seed osc_window (- 18) 21 6.7 =
      Inr ([r0, 0.004, 1, 0.004, 1 / 8], [ENone, EPair 0.84 0.84, ENone])"
    unfolding r0_def by (rule osc_profile_seed)
  show ?thesis
    unfolding window_temperature_profile_def heat_flow_angle_def window_profile_at_def
    using loop by (simp add: osc_gap_count seed)
qed

lemma osc_window_accepted:
  "window_materials_setter osc_window = Inr \<lparr>materials = osc_window, has_shade = False\<rparr>"
  by (simp add: window_materials_setter_def getitem_def osc_window_def clear_glass_def
      osc_gas_def)

lemma sample_air_positive: "positive_air sample_air"
  by (simp add: positive_air_def sample_air_def)

text \<open>
  C6. The loop returns the current vector as soon as the current and the previous sum
  differ by at most 0.001, and only then: as long as they differ by more it runs its
  body again (an exception of the body ends it). So a vector it returns is the seed
  (its sum within 0.001 of the initial previous sum) or comes from a last pass that
  changed the sum by at most 0.001. Nothing bounds the number of passes: for the
  accepted window \<open>osc_window\<close>, whose gas conductance steps with the temperature drop,
  and any air of positive viscosity and conductivity at positive temperatures,
  \<^verbatim>\<open>_solve_r_values\<close>, \<^verbatim>\<open>r_factor\<close> and \<^verbatim>\<open>temperature_profile\<close> never return.
\<close>

theorem solve_loop_unbounded:
  "(r_values_loop body r_last r_next r_vals = Some (Inr rs) \<longrightarrow>
      (\<bar>r_next - r_last\<bar> \<le> 0.001 \<and> rs = r_vals)
    \<or> (\<exists>prev. body prev = Inr rs \<and> \<bar>sum_list rs - sum_list prev\<bar> \<le> 0.001))
 \<and> (\<bar>r_next - r_last\<bar> > 0.001 \<and> body r_vals = Inr r_vals' \<longrightarrow>
      r_values_loop body r_last r_next r_vals
        = r_values_loop body (sum_list r_vals) (sum_list r_vals') r_vals')
 \<and> (\<bar>r_next - r_last\<bar> > 0.001 \<and> body r_vals = Inl err \<longrightarrow>
      r_values_loop body r_last r_next r_vals = Some (Inl err))
 \<and> (\<bar>r_next - r_last\<bar> \<le> 0.001 \<longrightarrow>
      r_values_loop body r_last r_next r_vals = Some (Inr r_vals))
 \<and> (positive_air air \<longrightarrow>
      window_materials_setter osc_window = Inr \<lparr>materials = osc_window, has_shade = False\<rparr>
    \<and> (\<exists>r_vals emissivities. window_r_factor_seed osc_window = Inr (r_vals, emissivities)
         \<and> solve_r_values air osc_window r_vals emissivities = None)
    \<and> window_r_factor air osc_window = None
    \<and> window_temperature_profile air osc_window (- 18) 21 6.7 1 90 101325 = None)"
proof (intro conjI impI)
  assume "r_values_loop body r_last r_next r_vals = Some (Inr rs)"
  then show "(\<bar>r_next - r_last\<bar> \<le> 0.001 \<and> rs = r_vals)
    \<or> (\<exists>prev. body prev = Inr rs \<and> \<bar>sum_list rs - sum_list prev\<bar> \<le> 0.001)"
    by (rule loop_partial)
next
  assume "\<bar>r_next - r_last\<bar> > 0.001 \<and> body r_vals = Inr r_vals'"
  then show "r_values_loop body r_last r_next r_vals
        = r_values_loop body (sum_list r_vals) (sum_list r_vals') r_vals'"
    by (subst r_values_loop.simps) simp
next
  assume "\<bar>r_next - r_last\<bar> > 0.001 \<and> body r_vals = Inl err"
  then show "r_values_loop body r_last r_next r_vals = Some (Inl err)"
    by (subst r_values_loop.simps) simp
next
  assume "\<bar>r_next - r_last\<bar> \<le> 0.001"
  then show "r_values_loop body r_last r_next r_vals = Some (Inr r_vals)"
    by (subst r_values_loop.simps) simp
next
  assume air: "positive_air air"
  show "window_materials_setter osc_window = Inr \<lparr>materials = osc_window, has_shade = False\<rparr>"
    by (rule osc_window_accepted)
  from osc_window_seed osc_window_diverges [OF air]
  show "\<exists>r_vals emissivities. window_r_factor_seed osc_window = Inr (r_vals, emissivities)
         \<and> solve_r_values air osc_window r_vals emissivities = None"
    by blast
  show "window_r_factor air osc_window = None"
    unfolding window_r_factor_def
    using osc_window_diverges [OF air] by (simp add: osc_gap_count osc_window_seed)
  show "window_temperature_profile air osc_window (- 18) 21 6.7 1 90 101325 = None"
    by (rule osc_profile_diverges [OF air])
qed

theorem solve_loop_unbounded_witness:
  "r_values_loop Inr 0 1 [1] = Some (Inr [1])
 \<and> r_values_loop Inr 0 1 [1] = r_values_loop Inr 1 1 [1]
 \<and> r_values_loop (\<lambda>r. Inl ZeroDivisionError) 0 1 [1] = Some (Inl ZeroDivisionError)
 \<and> r_values_loop Inr 1 1.001 [1.001] = Some (Inr [1.001])
 \<and> r_values_loop Inr 1 1.0005 [1.0005] = Some (Inr [1.0005])
 \<and> window_r_factor sample_air osc_window = None
 \<and> window_temperature_profile sample_air osc_window (- 18) 21 6.7 1 90 101325 = None"
proof -
  have run: "r_values_loop Inr 0 1 [1] = Some (Inr [1])"
    by (simp add: r_values_loop.simps)
  have far: "\<bar>(1::real) - 0\<bar> > 0.001 \<and> (Inr :: real list \<Rightarrow> error + real list) [1] = Inr [1]"
    by simp
  have fails: "\<bar>(1::real) - 0\<bar> > 0.001
      \<and> (\<lambda>r :: real list. Inl ZeroDivisionError :: error + real list) [1] = Inl ZeroDivisionError"
    by simp
  have edge: "\<bar>(1.001::real) - 1\<bar> \<le> 0.001" by simp
  have near: "\<bar>(1.0005::real) - 1\<bar> \<le> 0.001" by simp
  note inst = solve_loop_unbounded [of Inr 0 1 "[1]" "[1]" "[1]" _ sample_air]
  from inst run have "(\<bar>(1::real) - 0\<bar> \<le> 0.001 \<and> [1::real] = [1])
    \<or> (\<exists>prev. Inr prev = (Inr [1] :: error + real list)
          \<and> \<bar>sum_list [1::real] - sum_list prev\<bar> \<le> 0.001)"
    by blast
  moreover from inst far have "r_values_loop Inr 0 1 [1] = r_values_loop Inr 1 1 [1]"
    by simp
  moreover from solve_loop_unbounded
      [of "\<lambda>r. Inl ZeroDivisionError" 0 1 "[1]" _ _ ZeroDivisionError] fails
  have "r_values_loop (\<lambda>r. Inl ZeroDivisionError) 0 1 [1] = Some (Inl ZeroDivisionError)"
    by blast
  moreover from solve_loop_unbounded [of Inr 1 "1.001" "[1.001]"] edge
  have "r_values_loop Inr 1 1.001 [1.001] = Some (Inr [1.001])"
    by blast
  moreover from solve_loop_unbounded [of Inr 1 "1.0005" "[1.0005]"] near
  have "r_values_loop Inr 1 1.0005 [1.0005] = Some (Inr [1.0005])"
    by blast
  moreover from inst sample_air_positive
  have "window_r_factor sample_air osc_window = None
      \<and> window_temperature_profile sample_air osc_window (- 18) 21 6.7 1 90 101325 = None"
    by blast
  ultimately show ?thesis using run by blast
qed

section \<open>The R-factor and the default temperature profile\<close>

lemma nusselt_vertical_low:
  assumes "ra < 16"
  shows "nusselt_number 90 ra = Inr (0.56 * (ra powr (1 / 4)))"
proof -
  have "ra < 250000 * ((exp (0.72 * 90) / sin (radians 90)) powr (1 / 5))"
    using assms rayleigh_c_90_large by linarith
  then show ?thesis
    by (simp add: nusselt_number_def fdiv_def sin_radians_90 nusselt_inclined_def Let_def)
qed

lemma sample_air_film:
  assumes x: "0 < x" "x \<le> 3 / 10 ^ 11"
  shows "\<exists>h. in_h sample_air (Inr 0.84) (21 - 39 * x / 2 + 273.15) \<bar>39 * x\<bar> 1 90 101325 = Inr h
           \<and> 4.8479 \<le> h \<and> h \<le> 4.8625"
proof -
  define T :: real where "T = 21 - 39 * x / 2 + 273.15"
  have T: "294.14 \<le> T" "T \<le> 294.15"
    using x unfolding T_def by simp_all
  have T0: "0 < T" using T by simp
  define num :: real where "num = (1.2 ^ 2) * (1 ^ 3) * 9.81 * 1000 * \<bar>39 * x\<bar>"
  define den :: real where "den = T * (2 / 10 ^ 5) * 0.025"
  have den0: "0 < den" using T0 by (simp add: den_def)
  have den_low: "1 / 10 ^ 4 \<le> den"
  proof -
    have "294.14 * ((2 / 10 ^ 5) * 0.025) \<le> T * ((2 / 10 ^ 5) * (0.025::real))"
      using T(1) by (intro mult_right_mono) simp_all
    then show ?thesis by (simp add: den_def)
  qed
  have num0: "0 \<le> num" by (simp add: num_def)
  have num_up: "num \<le> 1 / 10 ^ 4"
  proof -
    have "\<bar>39 * x\<bar> = 39 * x" using x by simp
    moreover have "39 * x \<le> 39 * (3 / 10 ^ 11)" using x by simp
    ultimately have "num \<le> (1.2 ^ 2) * (1 ^ 3) * 9.81 * 1000 * (39 * (3 / 10 ^ 11))"
      unfolding num_def by (intro mult_left_mono) simp_all
    also have "\<dots> \<le> 1 / 10 ^ 4" by (simp add: power2_eq_square)
    finally show ?thesis .
  qed
  define ra :: real where "ra = \<bar>num / den\<bar>"
  have ra0: "0 \<le> ra" by (simp add: ra_def)
  have ra1: "ra \<le> 1"
  proof -
    have "num / den \<le> 1" using num_up den_low den0 by (simp add: field_simps)
    moreover have "0 \<le> num / den" using num0 den0 by simp
    ultimately show ?thesis by (simp add: ra_def)
  qed
  define p :: real where "p = ra powr (1 / 4)"
  have p0: "0 \<le> p" by (simp add: p_def)
  have p1: "p \<le> 1"
  proof -
    have "ra powr (1 / 4) \<le> 1 powr (1 / 4)" using ra0 ra1 by (intro powr_mono2) simp_all
    then show ?thesis by (simp add: p_def)
  qed
  have nu: "nusselt_number 90 ra = Inr (0.56 * p)"
    unfolding p_def using ra1 by (intro nusselt_vertical_low) linarith
  define rad :: real where "rad = 4 * (5.6697 / 10 ^ 8) * 0.84 * T ^ 3"
  have h_eq: "in_h sample_air (Inr 0.84) T \<bar>39 * x\<bar> 1 90 101325 = Inr (0.56 * p * (0.025 / 1) + rad)"
  proof -
    have "in_h sample_air (Inr 0.84) T \<bar>39 * x\<bar> 1 90 101325 =
        and_then (fdiv num den) (\<lambda>q. and_then (nusselt_number 90 \<bar>q\<bar>) (\<lambda>nusselt.
          and_then (fdiv 0.025 1) (\<lambda>k_h. Inr (nusselt * k_h + rad))))"
      unfolding in_h_def Let_def num_def den_def rad_def and_then.simps
      by (simp add: sample_air_def)
    also have "\<dots> = Inr (0.56 * p * (0.025 / 1) + rad)"
      using den0 nu by (simp add: fdiv_def ra_def)
    finally show ?thesis .
  qed
  have rad_low: "4.8479 \<le> rad"
  proof -
    have "(294.14::real) ^ 3 \<le> T ^ 3" using T(1) by (intro power_mono) simp_all
    then have "4 * (5.6697 / 10 ^ 8) * 0.84 * (294.14::real) ^ 3 \<le> rad"
      unfolding rad_def by simp
    moreover have "(4.8479::real) \<le> 4 * (5.6697 / 10 ^ 8) * 0.84 * 294.14 ^ 3"
      by (simp add: power3_eq_cube)
    ultimately show ?thesis by simp
  qed
  have rad_up: "rad \<le> 4.8485"
  proof -
    have "T ^ 3 \<le> (294.15::real) ^ 3" using T(2) T0 by (intro power_mono) simp_all
    then have "rad \<le> 4 * (5.6697 / 10 ^ 8) * 0.84 * (294.15::real) ^ 3"
      unfolding rad_def by simp
    moreover have "4 * (5.6697 / 10 ^ 8) * 0.84 * 294.15 ^ 3 \<le> (4.8485::real)"
      by (simp add: power3_eq_cube)
    ultimately show ?thesis by simp
  qed
  have "4.8479 \<le> 0.56 * p * (0.025 / 1) + rad" using p0 rad_low by simp
  moreover have "0.56 * p * (0.025 / 1) + rad \<le> 4.8625" using p1 rad_up by simp
  ultimately show ?thesis using h_eq unfolding T_def by blast
qed


lemma latch_step:
  assumes r0: "0 < r0" "r0 \<le> 1 / 30"
    and R: "R = 10 ^ 10 \<or> R = 10 ^ 14" and f: "0 < f" "f \<le> 0.3"
  shows "\<exists>f'. refine_r_values sample_air latch_window [ENone, EPair 0.84 0.84, ENone]
                (- 18) 21 1 90 101325 [r0, 0.004, R, 0.004, f]
              = Inr [r0, 0.004, R, 0.004, f'] \<and> 0.2056 \<le> f' \<and> f' \<le> 0.2063"
proof -
  define s where "s = r0 + 0.004 + 0.004 + f"
  define S where "S = r0 + 0.004 + R + 0.004 + f"
  have s: "0.008 < s" "s \<le> 0.35" using r0 f by (simp_all add: s_def)
  have S: "S = R + s" by (simp add: S_def s_def)
  have R10: "10 ^ 10 \<le> R" using R by auto
  have R0: "0 < R" using R by auto
  have S0: "0 < S" using R0 s S by simp
  have SR: "10 ^ 10 \<le> S" using R10 s S by simp
  define x where "x = f / S"
  have x0: "0 < x" using f S0 by (simp add: x_def)
  have x1: "x \<le> 3 / 10 ^ 11"
  proof -
    have "f / S \<le> 0.3 / 10 ^ 10"
      using f SR S0 by (intro frac_le) simp_all
    then show ?thesis by (simp add: x_def)
  qed
  obtain h where h: "in_h sample_air (Inr 0.84) (21 - 39 * x / 2 + 273.15) \<bar>39 * x\<bar> 1 90 101325
                       = Inr h" and hb: "4.8479 \<le> h" "h \<le> 4.8625"
    using sample_air_film [OF x0 x1] by blast
  have abs_gap: "\<bar>39 * (R / S)\<bar> = 39 * R / S" using R0 S0 by simp
  define c :: real where "c = 1 / 10 ^ 11"
  have c0: "0 < c" by (simp add: c_def)
  have split: "(39 - c) * S = 39 * R + (39 * s - S * c)"
    by (simp add: S algebra_simps)
  have gap_c: "(if 39 - c < \<bar>39 * (R / S)\<bar> then 1 / 10 ^ 14 else 1 / 10 ^ 10 :: real) = 1 / R"
  proof -
    from R show ?thesis
    proof
      assume R': "R = 10 ^ 10"
      have "S * c \<le> 39 * s" using s by (simp add: S R' c_def)
      with split have "39 * R \<le> (39 - c) * S" by simp
      then have "39 * R / S \<le> 39 - c" using S0 by (simp add: pos_divide_le_eq)
      then show ?thesis unfolding abs_gap using R' by simp
    next
      assume R': "R = 10 ^ 14"
      have "39 * s < S * c" using s by (simp add: S R' c_def)
      with split have "(39 - c) * S < 39 * R" by simp
      then have "39 - c < 39 * R / S" using S0 by (simp add: pos_less_divide_eq)
      then show ?thesis unfolding abs_gap using R' by simp
    qed
  qed
  have gap: "(if 39 - 1 / 10 ^ 11 < \<bar>39 * (R / S)\<bar> then 1 / 10 ^ 14 else 1 / 10 ^ 10 :: real)
      = 1 / R"
    using gap_c unfolding c_def .
  have h0: "h \<noteq> 0" using hb by simp
  have step: "refine_r_values sample_air latch_window [ENone, EPair 0.84 0.84, ENone]
                (- 18) 21 1 90 101325 [r0, 0.004, R, 0.004, f]
              = Inr [r0, 0.004, R, 0.004, 1 / h]"
    unfolding latch_window_def clear_glass_def latch_gas_def
    using S0 h h0 gap R0
    by (subst refine_three_layer) (auto simp: S_def x_def fdiv_def)
  have "0.2056 \<le> 1 / h" "1 / h \<le> 0.2063" using hb by (simp_all add: field_simps)
  with step show ?thesis by blast
qed


lemma latch_solve:
  assumes r0: "0 < r0" "r0 \<le> 1 / 30" and R: "R = 10 ^ 10 \<or> R = 10 ^ 14"
  shows "\<exists>f'. r_values_loop
           (refine_r_values sample_air latch_window [ENone, EPair 0.84 0.84, ENone]
              (- 18) 21 1 90 101325)
           0 (sum_list [r0, 0.004, R, 0.004, 1 / 8]) [r0, 0.004, R, 0.004, 1 / 8]
         = Some (Inr [r0, 0.004, R, 0.004, f']) \<and> 0.2056 \<le> f' \<and> f' \<le> 0.2063"
proof -
  let ?B = "refine_r_values sample_air latch_window [ENone, EPair 0.84 0.84, ENone]
              (- 18) 21 1 90 101325"
  have R0: "0 < R" using R by auto
  obtain f1 where step1: "?B [r0, 0.004, R, 0.004, 1 / 8] = Inr [r0, 0.004, R, 0.004, f1]"
    and f1: "0.2056 \<le> f1" "f1 \<le> 0.2063"
    using latch_step [OF r0 R, of "1 / 8"] by auto
  have f1': "0 < f1" "f1 \<le> 0.3" using f1 by simp_all
  obtain f2 where step2: "?B [r0, 0.004, R, 0.004, f1] = Inr [r0, 0.004, R, 0.004, f2]"
    and f2: "0.2056 \<le> f2" "f2 \<le> 0.2063"
    using latch_step [OF r0 R f1'] by auto
  have enter: "\<bar>sum_list [r0, 0.004, R, 0.004, 1 / 8] - 0\<bar> > 0.001"
    using r0 R0 by simp
  have d1: "sum_list [r0, 0.004, R, 0.004, f1] - sum_list [r0, 0.004, R, 0.004, 1 / 8]
      = f1 - 1 / 8" by simp
  have again: "\<bar>sum_list [r0, 0.004, R, 0.004, f1] - sum_list [r0, 0.004, R, 0.004, 1 / 8]\<bar>
      > 0.001"
  proof -
    have "0.001 < f1 - 1 / 8" using f1 by simp
    then have "0.001 < \<bar>f1 - 1 / 8\<bar>" by (simp add: abs_if)
    then show ?thesis unfolding d1 by simp
  qed
  have d2: "sum_list [r0, 0.004, R, 0.004, f2] - sum_list [r0, 0.004, R, 0.004, f1]
      = f2 - f1" by simp
  have stop: "\<not> \<bar>sum_list [r0, 0.004, R, 0.004, f2] - sum_list [r0, 0.004, R, 0.004, f1]\<bar>
      > 0.001"
  proof -
    have "f2 - f1 \<le> 0.001" "- (f2 - f1) \<le> 0.001" using f1 f2 by simp_all
    then have "\<bar>f2 - f1\<bar> \<le> 0.001" by (rule abs_leI)
    then show ?thesis unfolding d2 by simp
  qed
  have "r_values_loop ?B 0 (sum_list [r0, 0.004, R, 0.004, 1 / 8]) [r0, 0.004, R, 0.004, 1 / 8]
      = r_values_loop ?B (sum_list [r0, 0.004, R, 0.004, 1 / 8])
          (sum_list [r0, 0.004, R, 0.004, f1]) [r0, 0.004, R, 0.004, f1]"
    by (subst r_values_loop.simps) (simp only: enter if_True step1 sum.case)
  also have "\<dots> = r_values_loop ?B (sum_list [r0, 0.004, R, 0.004, f1])
          (sum_list [r0, 0.004, R, 0.004, f2]) [r0, 0.004, R, 0.004, f2]"
    by (subst r_values_loop.simps) (simp only: again if_True step2 sum.case)
  also have "\<dots> = Some (Inr [r0, 0.004, R, 0.004, f2])"
    by (subst r_values_loop.simps) (simp only: stop if_False)
  finally show ?thesis using f2 by blast
qed

lemma latch_r_factor_seed:
  "window_r_factor_seed latch_window =
     Inr ([1 / (4 + 4 * 6.7 + 4 * (5.6697 / 10 ^ 8) * 0.84 * (273.15 - 15) ^ 3),
           0.004, 10 ^ 14, 0.004, 1 / 8],
          [ENone, EPair 0.84 0.84, ENone])"
  by (simp add: seed_eval latch_window_def clear_glass_def latch_gas_def)

lemma latch_profile_seed:
  "window_profile_seed latch_window (- 18) 21 6.7 =
     Inr ([1 / (4 + 4 * 6.7 + 4 * (5.6697 / 10 ^ 8) * 0.84 * (274.65 - 19.5) ^ 3),
           0.004, 10 ^ 10, 0.004, 1 / 8],
          [ENone, EPair 0.84 0.84, ENone])"
  by (simp add: seed_eval latch_window_def clear_glass_def latch_gas_def)

lemma latch_gap_count: "gap_count latch_window = 1"
  by (simp add: gap_count_def latch_window_def clear_glass_def latch_gas_def)

lemma latch_window_accepted:
  "window_materials_setter latch_window
     = Inr \<lparr>materials = latch_window, has_shade = False\<rparr>"
  by (simp add: window_materials_setter_def getitem_def latch_window_def clear_glass_def
      latch_gas_def)


lemma latch_r_factor:
  "\<exists>f'. window_r_factor sample_air latch_window =
          Some (Inr (sum_list
            [1 / (4 + 4 * 6.7 + 4 * (5.6697 / 10 ^ 8) * 0.84 * (273.15 - 15) ^ 3),
             0.004, 10 ^ 14, 0.004, f']))
      \<and> solve_r_values sample_air latch_window
            [1 / (4 + 4 * 6.7 + 4 * (5.6697 / 10 ^ 8) * 0.84 * (273.15 - 15) ^ 3),
             0.004, 10 ^ 14, 0.004, 1 / 8] [ENone, EPair 0.84 0.84, ENone]
          = Some (Inr [1 / (4 + 4 * 6.7 + 4 * (5.6697 / 10 ^ 8) * 0.84 * (273.15 - 15) ^ 3),
             0.004, 10 ^ 14, 0.004, f'])
      \<and> 0.2056 \<le> f' \<and> f' \<le> 0.2063"
proof -
  define r0 :: real
    where "r0 = 1 / (4 + 4 * 6.7 + 4 * (5.6697 / 10 ^ 8) * 0.84 * (273.15 - 15) ^ 3)"
  have r0: "0 < r0" "r0 \<le> 1 / 30"
    unfolding r0_def by (rule default_out_r_bounds)+
  obtain f' where loop: "r_values_loop
           (refine_r_values sample_air latch_window [ENone, EPair 0.84 0.84, ENone]
              (- 18) 21 1 90 101325)
           0 (sum_list [r0, 0.004, 10 ^ 14, 0.004, 1 / 8]) [r0, 0.004, 10 ^ 14, 0.004, 1 / 8]
         = Some (Inr [r0, 0.004, 10 ^ 14, 0.004, f'])" and f': "0.2056 \<le> f'" "f' \<le> 0.2063"
    using latch_solve [OF r0, of "10 ^ 14"] by auto
  have solve: "solve_r_values sample_air latch_window [r0, 0.004, 10 ^ 14, 0.004, 1 / 8]
      [ENone, EPair 0.84 0.84, ENone] = Some (Inr [r0, 0.004, 10 ^ 14, 0.004, f'])"
    unfolding solve_r_values_def using loop by simp
  have seed: "window_r_factor_seed latch_window =
      Inr ([r0, 0.004, 10 ^ 14, 0.004, 1 / 8], [ENone, EPair 0.84 0.84, ENone])"
    unfolding r0_def by (rule latch_r_factor_seed)
  have "window_r_factor sample_air latch_window
      = Some (Inr (sum_list [r0, 0.004, 10 ^ 14, 0.004, f']))"
    unfolding window_r_factor_def latch_gap_count seed using solve by simp
  with solve f' show ?thesis unfolding r0_def by blast
qed

lemma latch_profile:
  "\<exists>ts f'. window_temperature_profile sample_air latch_window (- 18) 21 6.7 1 90 101325 =
          Some (Inr (ts,
            [1 / (4 + 4 * 6.7 + 4 * (5.6697 / 10 ^ 8) * 0.84 * (274.65 - 19.5) ^ 3),
             0.004, 10 ^ 10, 0.004, f']))
      \<and> 0.2056 \<le> f' \<and> f' \<le> 0.2063"
proof -
  define r0 :: real
    where "r0 = 1 / (4 + 4 * 6.7 + 4 * (5.6697 / 10 ^ 8) * 0.84 * (274.65 - 19.5) ^ 3)"
  have r0: "0 < r0" "r0 \<le> 1 / 30"
    unfolding r0_def by (rule profile_out_r_bounds)+
  obtain f' where loop: "r_values_loop
           (refine_r_values sample_air latch_window [ENone, EPair 0.84 0.84, ENone]
              (- 18) 21 1 90 101325)
           0 (sum_list [r0, 0.004, 10 ^ 10, 0.004, 1 / 8]) [r0, 0.004, 10 ^ 10, 0.004, 1 / 8]
         = Some (Inr [r0, 0.004, 10 ^ 10, 0.004, f'])" and f': "0.2056 \<le> f'" "f' \<le> 0.2063"
    using latch_solve [OF r0, of "10 ^ 10"] by auto
  have seed: "window_profile_seed latch_window (- 18) 21 6.7 =
      Inr ([r0, 0.004, 10 ^ 10, 0.004, 1 / 8], [ENone, EPair 0.84 0.84, ENone])"
    unfolding r0_def by (rule latch_profile_seed)
  have "r0 + 0.004 + 10 ^ 10 + 0.004 + f' \<noteq> 0" using r0 f' by simp
  from profile_five [OF this, of "- 18" 21]
  obtain ts where ts: "temperature_profile_from_r_values [r0, 0.004, 10 ^ 10, 0.004, f'] (- 18) 21
      = Inr ts" by blast
  have "window_temperature_profile sample_air latch_window (- 18) 21 6.7 1 90 101325
      = Some (Inr (ts, [r0, 0.004, 10 ^ 10, 0.004, f']))"
    unfolding window_temperature_profile_def heat_flow_angle_def window_profile_at_def
    using loop ts by (simp add: latch_gap_count seed)
  with f' show ?thesis unfolding r0_def by blast
qed

text \<open>
  C1 as stated fails. The window \<open>latch_window\<close> is accepted and has one gap. Its gas
  conductance keeps the value its seed gave it, and the two seeds differ: \<^verbatim>\<open>r_factor\<close>
  seeds the gap with a drop of 15, \<^verbatim>\<open>temperature_profile()\<close> with 19.5. Both solves
  return after two passes, with sums that are far apart.
\<close>

theorem r_factor_profile_counterexample:
  "window_materials_setter latch_window
     = Inr \<lparr>materials = latch_window, has_shade = False\<rparr>
 \<and> gap_count latch_window = 1
 \<and> (\<exists>x ts rs. window_r_factor sample_air latch_window = Some (Inr x)
       \<and> window_temperature_profile sample_air latch_window (- 18) 21 6.7 1 90 101325
           = Some (Inr (ts, rs))
       \<and> \<bar>sum_list rs - x\<bar> > 0.001)"
proof -
  obtain fa where rf: "window_r_factor sample_air latch_window =
          Some (Inr (sum_list
            [1 / (4 + 4 * 6.7 + 4 * (5.6697 / 10 ^ 8) * 0.84 * (273.15 - 15) ^ 3),
             0.004, 10 ^ 14, 0.004, fa]))" and fa: "0.2056 \<le> fa" "fa \<le> 0.2063"
    using latch_r_factor by blast
  obtain ts fb where tp: "window_temperature_profile sample_air latch_window (- 18) 21 6.7 1 90
        101325 = Some (Inr (ts,
            [1 / (4 + 4 * 6.7 + 4 * (5.6697 / 10 ^ 8) * 0.84 * (274.65 - 19.5) ^ 3),
             0.004, 10 ^ 10, 0.004, fb]))" and fb: "0.2056 \<le> fb" "fb \<le> 0.2063"
    using latch_profile by blast
  define a b :: real
    where "a = 1 / (4 + 4 * 6.7 + 4 * (5.6697 / 10 ^ 8) * 0.84 * (273.15 - 15) ^ 3)"
      and "b = 1 / (4 + 4 * 6.7 + 4 * (5.6697 / 10 ^ 8) * 0.84 * (274.65 - 19.5) ^ 3)"
  have a: "0 < a" "a \<le> 1 / 30" unfolding a_def by (rule default_out_r_bounds)+
  have b: "0 < b" "b \<le> 1 / 30" unfolding b_def by (rule profile_out_r_bounds)+
  have "sum_list [b, 0.004, 10 ^ 10, 0.004, fb] - sum_list [a, 0.004, 10 ^ 14, 0.004, fa]
      \<le> - 1" using a b fa fb by simp
  then have "\<bar>sum_list [b, 0.004, 10 ^ 10, 0.004, fb] - sum_list [a, 0.004, 10 ^ 14, 0.004, fa]\<bar>
      > 0.001" by (simp add: abs_if)
  with rf tp latch_window_accepted latch_gap_count show ?thesis
    unfolding a_def b_def by blast
qed

text \<open>
  C1, as the code has it. With at least one gap, \<^verbatim>\<open>r_factor\<close> is the sum of the vector
  its own solve returns, and \<^verbatim>\<open>temperature_profile()\<close> with the default arguments
  returns the vector of the same loop with the same body, started from its own seed
  (drop 19.5 and mean 274.65 instead of 15 and 273.15). Each returned vector is its seed,
  or its sum is within 0.001 of the sum of the vector before it in the same solve.
\<close>

theorem r_factor_sums_own_vector:
  "(gap_count mats \<noteq> 0 \<and> window_r_factor air mats = Some (Inr x) \<longrightarrow>
      (\<exists>seed em rs. window_r_factor_seed mats = Inr (seed, em)
         \<and> r_values_loop (refine_r_values air mats em (- 18) 21 1 90 101325)
              0 (sum_list seed) seed = Some (Inr rs)
         \<and> x = sum_list rs
         \<and> ((\<bar>sum_list seed - 0\<bar> \<le> 0.001 \<and> rs = seed)
            \<or> (\<exists>prev. refine_r_values air mats em (- 18) 21 1 90 101325 prev = Inr rs
                  \<and> \<bar>sum_list rs - sum_list prev\<bar> \<le> 0.001))))
 \<and> (gap_count mats \<noteq> 0
      \<and> window_temperature_profile air mats (- 18) 21 6.7 1 90 101325 = Some (Inr (ts, rs)) \<longrightarrow>
      (\<exists>seed em. window_profile_seed mats (- 18) 21 6.7 = Inr (seed, em)
         \<and> window_profile_seed mats (- 18) 21 6.7
             = layered_r_value_initial mats (gap_count mats) 19.5 274.65 6.7
         \<and> r_values_loop (refine_r_values air mats em (- 18) 21 1 90 101325)
              0 (sum_list seed) seed = Some (Inr rs)
         \<and> ((\<bar>sum_list seed - 0\<bar> \<le> 0.001 \<and> rs = seed)
            \<or> (\<exists>prev. refine_r_values air mats em (- 18) 21 1 90 101325 prev = Inr rs
                  \<and> \<bar>sum_list rs - sum_list prev\<bar> \<le> 0.001))))"
proof (intro conjI impI; elim conjE)
  assume gaps: "gap_count mats \<noteq> 0" and rf: "window_r_factor air mats = Some (Inr x)"
  from rf gaps obtain seed em where seed: "window_r_factor_seed mats = Inr (seed, em)"
    unfolding window_r_factor_def
    by (cases "window_r_factor_seed mats") (auto split: prod.splits)
  with rf gaps obtain rs where
    loop: "r_values_loop (refine_r_values air mats em (- 18) 21 1 90 101325)
              0 (sum_list seed) seed = Some (Inr rs)" and x: "x = sum_list rs"
    unfolding window_r_factor_def solve_r_values_def
    by (auto split: option.splits sum.splits)
  from loop_partial [OF loop] seed loop x
  show "\<exists>seed em rs. window_r_factor_seed mats = Inr (seed, em)
         \<and> r_values_loop (refine_r_values air mats em (- 18) 21 1 90 101325)
              0 (sum_list seed) seed = Some (Inr rs)
         \<and> x = sum_list rs
         \<and> ((\<bar>sum_list seed - 0\<bar> \<le> 0.001 \<and> rs = seed)
            \<or> (\<exists>prev. refine_r_values air mats em (- 18) 21 1 90 101325 prev = Inr rs
                  \<and> \<bar>sum_list rs - sum_list prev\<bar> \<le> 0.001))"
    by blast
next
  assume gaps: "gap_count mats \<noteq> 0"
    and tp: "window_temperature_profile air mats (- 18) 21 6.7 1 90 101325 = Some (Inr (ts, rs))"
  have at: "window_profile_at air mats (- 18) 21 6.7 1 90 101325 = Some (Inr (ts, rs))"
    using tp by (simp add: window_temperature_profile_def heat_flow_angle_def)
  from at gaps obtain seed em where seed: "window_profile_seed mats (- 18) 21 6.7 = Inr (seed, em)"
    unfolding window_profile_at_def
    by (cases "window_profile_seed mats (- 18) 21 6.7") (auto split: prod.splits)
  with at gaps have
    loop: "r_values_loop (refine_r_values air mats em (- 18) 21 1 90 101325)
              0 (sum_list seed) seed = Some (Inr rs)"
    unfolding window_profile_at_def
    by (auto split: option.splits sum.splits dest!: and_then_Inr)
  have guess: "window_profile_seed mats (- 18) 21 6.7
             = layered_r_value_initial mats (gap_count mats) 19.5 274.65 6.7"
    by (simp add: window_profile_seed_def Let_def)
  from loop_partial [OF loop] seed loop guess
  show "\<exists>seed em. window_profile_seed mats (- 18) 21 6.7 = Inr (seed, em)
         \<and> window_profile_seed mats (- 18) 21 6.7
             = layered_r_value_initial mats (gap_count mats) 19.5 274.65 6.7
         \<and> r_values_loop (refine_r_values air mats em (- 18) 21 1 90 101325)
              0 (sum_list seed) seed = Some (Inr rs)
         \<and> ((\<bar>sum_list seed - 0\<bar> \<le> 0.001 \<and> rs = seed)
            \<or> (\<exists>prev. refine_r_values air mats em (- 18) 21 1 90 101325 prev = Inr rs
                  \<and> \<bar>sum_list rs - sum_list prev\<bar> \<le> 0.001))"
    by blast
qed


theorem r_factor_sums_own_vector_witness:
  "(\<exists>seed em rs. window_r_factor_seed latch_window = Inr (seed, em)
       \<and> r_values_loop (refine_r_values sample_air latch_window em (- 18) 21 1 90 101325)
            0 (sum_list seed) seed = Some (Inr rs)
       \<and> window_r_factor sample_air latch_window = Some (Inr (sum_list rs)))
 \<and> (\<exists>seed em ts rs. window_profile_seed latch_window (- 18) 21 6.7 = Inr (seed, em)
       \<and> r_values_loop (refine_r_values sample_air latch_window em (- 18) 21 1 90 101325)
            0 (sum_list seed) seed = Some (Inr rs)
       \<and> window_temperature_profile sample_air latch_window (- 18) 21 6.7 1 90 101325
            = Some (Inr (ts, rs)))"
proof -
  have gaps: "gap_count latch_window \<noteq> 0" by (simp add: latch_gap_count)
  obtain x where rf: "window_r_factor sample_air latch_window = Some (Inr x)"
    using latch_r_factor by blast
  obtain ts rs where tp: "window_temperature_profile sample_air latch_window (- 18) 21 6.7 1 90
        101325 = Some (Inr (ts, rs))"
    using latch_profile by blast
  from r_factor_sums_own_vector [THEN conjunct1, rule_format, OF conjI [OF gaps rf]] rf
  have one: "\<exists>seed em rs. window_r_factor_seed latch_window = Inr (seed, em)
       \<and> r_values_loop (refine_r_values sample_air latch_window em (- 18) 21 1 90 101325)
            0 (sum_list seed) seed = Some (Inr rs)
       \<and> window_r_factor sample_air latch_window = Some (Inr (sum_list rs))"
    by blast
  from r_factor_sums_own_vector [THEN conjunct2, rule_format, OF conjI [OF gaps tp]] tp
  have two: "\<exists>seed em ts rs. window_profile_seed latch_window (- 18) 21 6.7 = Inr (seed, em)
       \<and> r_values_loop (refine_r_values sample_air latch_window em (- 18) 21 1 90 101325)
            0 (sum_list seed) seed = Some (Inr rs)
       \<and> window_temperature_profile sample_air latch_window (- 18) 21 6.7 1 90 101325
            = Some (Inr (ts, rs))"
    by blast
  from one two show ?thesis by (rule conjI)
qed


end
